theory Spec2Isabelle
  imports Main "HOL-Library.Char_ord" "HOL-Library.List_Lexorder"
begin

section \<open>Values and exceptions of the Python program\<close>

text \<open>
  The program under study is \<^verbatim>\<open>psytools/imagen_psytools_download_json.py\<close>: a
  LimeSurvey JSON-RPC client (\<^verbatim>\<open>LimeSurveySession\<close>) and the synchronisation loop
  \<^verbatim>\<open>download_json\<close>.

  Everything the program handles is a decoded JSON value. A Python dictionary keeps its
  insertion order and its keys are hashable values, so a dictionary is an association
  list whose keys are of a type of their own. Python strings are lists of characters
  (code points up to 255); floating-point numbers are not part of the model.
\<close>

datatype key = KNone | KBool bool | KInt int | KStr string

datatype json =
    JNull
  | JBool bool
  | JInt int
  | JStr string
  | JList "json list"
  | JDict "(key \<times> json) list"

text \<open>
  The exceptions the program can raise. \<^verbatim>\<open>LimeSurveyError(message, code)\<close> is the only
  class the source defines; the others are Python's own. \<open>RequestException\<close> stands for
  every failure of \<^verbatim>\<open>requests\<close> (connection errors), \<open>ValueError\<close> for a body or
  payload that does not decode, \<open>OSError\<close> for a file that cannot be opened
  (\<^verbatim>\<open>FileNotFoundError\<close>, \<^verbatim>\<open>IsADirectoryError\<close>, \<^verbatim>\<open>PermissionError\<close>).
\<close>

datatype exn =
    LimeSurveyError json json
  | KeyError key
  | TypeError
  | AttributeError
  | AssertionError
  | ValueError
  | RequestException
  | OSError
  | UnicodeDecodeError

subsection \<open>Dictionaries\<close>

text \<open>
  Python identifies the keys \<^verbatim>\<open>True\<close> and \<^verbatim>\<open>1\<close> (and \<^verbatim>\<open>False\<close> and \<^verbatim>\<open>0\<close>): they
  are equal and hash alike.
\<close>

fun key_num :: "key \<Rightarrow> int option" where
  "key_num (KBool b) = Some (if b then 1 else 0)"
| "key_num (KInt i) = Some i"
| "key_num _ = None"

definition key_eq :: "key \<Rightarrow> key \<Rightarrow> bool" where
  "key_eq a b = (a = b \<or> (key_num a \<noteq> None \<and> key_num a = key_num b))"

fun dict_get :: "(key \<times> 'a) list \<Rightarrow> key \<Rightarrow> 'a option" where
  "dict_get [] k = None"
| "dict_get ((k', v) # kvs) k = (if key_eq k' k then Some v else dict_get kvs k)"

text \<open>\<^verbatim>\<open>d[k] = v\<close>: an existing key keeps its position (and its key object).\<close>

fun dict_set :: "(key \<times> 'a) list \<Rightarrow> key \<Rightarrow> 'a \<Rightarrow> (key \<times> 'a) list" where
  "dict_set [] k v = [(k, v)]"
| "dict_set ((k', v') # kvs) k v =
     (if key_eq k' k then (k', v) # kvs else (k', v') # dict_set kvs k v)"

text \<open>A value used as a key: lists and dictionaries are unhashable.\<close>

fun to_key :: "json \<Rightarrow> key option" where
  "to_key JNull = Some KNone"
| "to_key (JBool b) = Some (KBool b)"
| "to_key (JInt i) = Some (KInt i)"
| "to_key (JStr s) = Some (KStr s)"
| "to_key (JList _) = None"
| "to_key (JDict _) = None"

fun of_key :: "key \<Rightarrow> json" where
  "of_key KNone = JNull"
| "of_key (KBool b) = JBool b"
| "of_key (KInt i) = JInt i"
| "of_key (KStr s) = JStr s"

subsection \<open>Python operations on values\<close>

text \<open>
  \<^verbatim>\<open>obj['name']\<close> with a string literal as the subscript, the only form the source uses
  on decoded values: a dictionary looks the key up and raises \<^verbatim>\<open>KeyError\<close> when it is
  missing; a list or a string raises \<^verbatim>\<open>TypeError\<close> (indices must be integers), and so
  does every other value (not subscriptable).
\<close>

fun getitem :: "json \<Rightarrow> string \<Rightarrow> exn + json" where
  "getitem (JDict kvs) name =
     (case dict_get kvs (KStr name) of
        None \<Rightarrow> Inl (KeyError (KStr name))
      | Some v \<Rightarrow> Inr v)"
| "getitem _ name = Inl TypeError"

text \<open>Truth value of an object, as \<^verbatim>\<open>if error:\<close> tests it.\<close>

fun truthy :: "json \<Rightarrow> bool" where
  "truthy JNull = False"
| "truthy (JBool b) = b"
| "truthy (JInt i) = (i \<noteq> 0)"
| "truthy (JStr s) = (s \<noteq> [])"
| "truthy (JList xs) = (xs \<noteq> [])"
| "truthy (JDict kvs) = (kvs \<noteq> [])"

text \<open>\<^verbatim>\<open>x == n\<close> for an integer \<^verbatim>\<open>n\<close>: booleans are integers in Python.\<close>

fun eq_int :: "json \<Rightarrow> int \<Rightarrow> bool" where
  "eq_int (JInt i) n = (i = n)"
| "eq_int (JBool b) n = ((if b then 1 else 0) = n)"
| "eq_int _ n = False"

text \<open>
  \<^verbatim>\<open>for x in obj\<close>: a list yields its elements, a dictionary its keys, a string its
  characters; nothing else is iterable.
\<close>

fun py_iter :: "json \<Rightarrow> exn + json list" where
  "py_iter (JList xs) = Inr xs"
| "py_iter (JDict kvs) = Inr (map (of_key \<circ> fst) kvs)"
| "py_iter (JStr s) = Inr (map (\<lambda>c. JStr [c]) s)"
| "py_iter _ = Inl TypeError"

section \<open>The JSON-RPC session\<close>

text \<open>
  A request envelope (\<^verbatim>\<open>LimeSurveySession._request\<close>); the constant field
  \<^verbatim>\<open>'jsonrpc': '2.0'\<close> is left out.
\<close>

datatype request = Request (req_id: int) (req_method: string) (req_params: "json list")

text \<open>
  What lies outside the program: the remote service, which answers a posted request
  with a decoded response body or with an exception of the transport, and the library
  call \<^verbatim>\<open>json.loads(base64.b64decode(s).decode('utf_8'))\<close> on a string, taken as a
  whole: the result for each Base64 text is given with the service.
\<close>

record remote =
  server :: "request \<Rightarrow> exn + json"
  b64_json :: "string \<Rightarrow> exn + json"

text \<open>
  The mutable state of a run: the class-wide request counter
  \<^verbatim>\<open>LimeSurveySession.__request_id\<close>, the requests posted so far (in order), the regular
  files of the file system with their contents (bytes), and the paths written so far.
  The last two fields are what the operating system grants: the files that can be opened
  for reading, and the paths that can be opened for writing (the directory exists, the
  path is not a directory, the permission is given).
\<close>

record world =
  request_id :: int
  posted :: "request list"
  files :: "string \<Rightarrow> string option"
  written :: "string list"
  readable :: "string \<Rightarrow> bool"
  writable :: "string \<Rightarrow> bool"

text \<open>
  A \<^verbatim>\<open>LimeSurveySession\<close> object: its \<^verbatim>\<open>key\<close> attribute (\<^verbatim>\<open>None\<close> is \<open>JNull\<close>) and
  whether its \<^verbatim>\<open>requests.Session\<close> has been closed.
\<close>

record session =
  url :: string
  key :: json
  http_closed :: bool

definition generate_request_id :: "world \<Rightarrow> int \<times> world" where
  "generate_request_id w = (request_id w + 1, w\<lparr>request_id := request_id w + 1\<rparr>)"

definition request :: "string \<Rightarrow> json list \<Rightarrow> world \<Rightarrow> request \<times> world" where
  "request method params w =
     (case generate_request_id w of (i, w') \<Rightarrow> (Request i method params, w'))"

text \<open>
  \<^verbatim>\<open>_post\<close>: the request is sent whatever the state of the session is. The body must
  be a dictionary with the request's \<^verbatim>\<open>id\<close> (an \<^verbatim>\<open>assert\<close>), a \<^verbatim>\<open>result\<close> and an
  \<^verbatim>\<open>error\<close>.
\<close>

definition post :: "remote \<Rightarrow> request \<Rightarrow> world \<Rightarrow> (exn + json \<times> json) \<times> world" where
  "post R rq w =
     (let w' = w\<lparr>posted := posted w @ [rq]\<rparr> in
      case server R rq of
        Inl e \<Rightarrow> (Inl e, w')
      | Inr response \<Rightarrow>
          (case getitem response ''id'' of
             Inl e \<Rightarrow> (Inl e, w')
           | Inr i \<Rightarrow>
               if \<not> eq_int i (req_id rq) then (Inl AssertionError, w')
               else
                 (case getitem response ''result'' of
                    Inl e \<Rightarrow> (Inl e, w')
                  | Inr result \<Rightarrow>
                      (case getitem response ''error'' of
                         Inl e \<Rightarrow> (Inl e, w')
                       | Inr error \<Rightarrow> (Inr (result, error), w')))))"

text \<open>
  The decorator \<^verbatim>\<open>error2exception\<close>: a truthy error becomes a \<^verbatim>\<open>LimeSurveyError\<close>,
  with the code and message of the error object, or with \<open>-32603\<close> when the object
  has not both.
\<close>

definition unexpected_error :: exn where
  "unexpected_error = LimeSurveyError (JStr ''Unexpected JSON-RPC error type'') (JInt (- 32603))"

definition error2exception :: "(exn + json \<times> json) \<times> world \<Rightarrow> (exn + json) \<times> world" where
  "error2exception r =
     (case r of
        (Inl e, w) \<Rightarrow> (Inl e, w)
      | (Inr (response, error), w) \<Rightarrow>
          if truthy error then
            (case getitem error ''code'' of
               Inl _ \<Rightarrow> (Inl unexpected_error, w)
             | Inr code \<Rightarrow>
                 (case getitem error ''message'' of
                    Inl _ \<Rightarrow> (Inl unexpected_error, w)
                  | Inr message \<Rightarrow> (Inl (LimeSurveyError message code), w)))
          else (Inr response, w))"

text \<open>The error object the source builds from a \<^verbatim>\<open>status\<close> string.\<close>

definition status_error :: "json \<Rightarrow> json" where
  "status_error status = JDict [(KStr ''code'', JInt (- 32099)), (KStr ''message'', status)]"

text \<open>
  \<^verbatim>\<open>_get_session_key\<close>. The source rewrites the pair \<^verbatim>\<open>(response, error)\<close> and then
  returns \<^verbatim>\<open>response\<close> alone: \<open>get_session_key_fix\<close> is the rewriting, of which
  \<open>get_session_key\<close> keeps the first component. The method is not decorated with
  \<^verbatim>\<open>error2exception\<close>.
\<close>

definition get_session_key_fix :: "json \<times> json \<Rightarrow> json \<times> json" where
  "get_session_key_fix r =
     (case r of (response, error) \<Rightarrow>
        (case getitem response ''status'' of
           Inl _ \<Rightarrow> if error \<noteq> JNull then (JNull, error) else (response, error)
         | Inr status \<Rightarrow> (JNull, status_error status)))"

definition get_session_key ::
  "remote \<Rightarrow> json \<Rightarrow> json \<Rightarrow> world \<Rightarrow> (exn + json) \<times> world" where
  "get_session_key R username password w =
     (case request ''get_session_key'' [username, password] w of (rq, w1) \<Rightarrow>
        (case post R rq w1 of
           (Inl e, w2) \<Rightarrow> (Inl e, w2)
         | (Inr r, w2) \<Rightarrow> (Inr (fst (get_session_key_fix r)), w2)))"

text \<open>\<^verbatim>\<open>_release_session_key\<close>: the outcome of the call is ignored.\<close>

definition release_session_key :: "remote \<Rightarrow> json \<Rightarrow> world \<Rightarrow> (exn + unit) \<times> world" where
  "release_session_key R k w =
     (case request ''release_session_key'' [k] w of (rq, w1) \<Rightarrow>
        (case post R rq w1 of
           (Inl e, w2) \<Rightarrow> (Inl e, w2)
         | (Inr _, w2) \<Rightarrow> (Inr (), w2)))"

text \<open>\<^verbatim>\<open>__init__\<close>: the constructor stores whatever \<^verbatim>\<open>_get_session_key\<close> returns.\<close>

definition init :: "remote \<Rightarrow> string \<Rightarrow> json \<Rightarrow> json \<Rightarrow> world \<Rightarrow> (exn + session) \<times> world" where
  "init R u username password w =
     (case get_session_key R username password w of
        (Inl e, w') \<Rightarrow> (Inl e, w')
      | (Inr k, w') \<Rightarrow> (Inr \<lparr>url = u, key = k, http_closed = False\<rparr>, w'))"

text \<open>\<^verbatim>\<open>close\<close>: release the key, forget it, close the HTTP session.\<close>

definition close :: "remote \<Rightarrow> session \<Rightarrow> world \<Rightarrow> (exn + session) \<times> world" where
  "close R s w =
     (case release_session_key R (key s) w of
        (Inl e, w') \<Rightarrow> (Inl e, w')
      | (Inr _, w') \<Rightarrow> (Inr (s\<lparr>key := JNull, http_closed := True\<rparr>), w'))"

definition surveys_post ::
  "remote \<Rightarrow> session \<Rightarrow> world \<Rightarrow> (exn + json \<times> json) \<times> world" where
  "surveys_post R s w =
     (case request ''list_surveys'' [key s] w of (rq, w1) \<Rightarrow> post R rq w1)"

definition surveys :: "remote \<Rightarrow> session \<Rightarrow> world \<Rightarrow> (exn + json) \<times> world" where
  "surveys R s w = error2exception (surveys_post R s w)"

text \<open>
  \<^verbatim>\<open>participants\<close>: one request (\<open>participants_post\<close>, with start 0 and limit
  5000), then the repair of the reply.
\<close>

definition participants_fix :: "json \<times> json \<Rightarrow> json \<times> json" where
  "participants_fix r =
     (case r of (responses, error) \<Rightarrow>
        (case getitem responses ''status'' of
           Inl _ \<Rightarrow> (responses, error)
         | Inr status \<Rightarrow>
             if status = JStr ''No Tokens found''
             then (JList [], if error \<noteq> JNull then JNull else error)
             else (JList [], status_error status)))"

definition participants_post ::
  "remote \<Rightarrow> session \<Rightarrow> json \<Rightarrow> json \<Rightarrow> world \<Rightarrow> (exn + json \<times> json) \<times> world" where
  "participants_post R s survey attributes w =
     (case request ''list_participants''
             [key s, survey, JInt 0, JInt 5000, JBool False, attributes] w of
        (rq, w1) \<Rightarrow> post R rq w1)"

definition participants ::
  "remote \<Rightarrow> session \<Rightarrow> json \<Rightarrow> json \<Rightarrow> world \<Rightarrow> (exn + json) \<times> world" where
  "participants R s survey attributes w =
     error2exception
       (case participants_post R s survey attributes w of
          (Inl e, w2) \<Rightarrow> (Inl e, w2)
        | (Inr r, w2) \<Rightarrow> (Inr (participants_fix r), w2))"

text \<open>
  \<^verbatim>\<open>responses\<close>: a string payload is decoded (Base64, UTF-8, JSON); a failure of the
  decoding other than \<^verbatim>\<open>TypeError\<close> propagates. Any other payload makes
  \<^verbatim>\<open>b64decode\<close> raise \<^verbatim>\<open>TypeError\<close>, which the source repairs.
\<close>

definition expected_base64 :: string where
  "expected_base64 =
     ''JSON-RPC function '' @ [CHR 0x22] @ ''export_responses'' @ [CHR 0x22]
       @ '' expected a Base64-encoded string''"

definition responses_decode :: "remote \<Rightarrow> json \<Rightarrow> exn + json" where
  "responses_decode R r = (case r of JStr s \<Rightarrow> b64_json R s | _ \<Rightarrow> Inl TypeError)"

definition responses_fix :: "json \<times> json \<Rightarrow> json \<times> json" where
  "responses_fix r =
     (case r of (responses, error) \<Rightarrow>
        (case getitem responses ''status'' of
           Inl _ \<Rightarrow> (JDict [(KStr ''responses'', JList [])], status_error (JStr expected_base64))
         | Inr status \<Rightarrow>
             if status = JStr ''No Data, could not get max id.''
             then (JDict [(KStr ''responses'', JList [])], if error \<noteq> JNull then JNull else error)
             else (JDict [(KStr ''responses'', JList [])], status_error status)))"

definition responses_post ::
  "remote \<Rightarrow> session \<Rightarrow> json \<Rightarrow> json \<Rightarrow> world \<Rightarrow> (exn + json \<times> json) \<times> world" where
  "responses_post R s survey status w =
     (case request ''export_responses''
             [key s, survey, JStr ''json'', JStr ''fr'', status] w of
        (rq, w1) \<Rightarrow> post R rq w1)"

definition responses ::
  "remote \<Rightarrow> session \<Rightarrow> json \<Rightarrow> json \<Rightarrow> world \<Rightarrow> (exn + json) \<times> world" where
  "responses R s survey status w =
     error2exception
       (case responses_post R s survey status w of
          (Inl e, w2) \<Rightarrow> (Inl e, w2)
        | (Inr (rs, error), w2) \<Rightarrow>
            (case responses_decode R rs of
               Inr v \<Rightarrow> (Inr (v, error), w2)
             | Inl TypeError \<Rightarrow> (Inr (responses_fix (rs, error)), w2)
             | Inl e \<Rightarrow> (Inl e, w2)))"

section \<open>Canonical serialisation\<close>

text \<open>
  \<^verbatim>\<open>json.dumps(obj, indent=4, separators=(',', ': '), sort_keys=True)\<close> of the Python
  library, with its default \<^verbatim>\<open>ensure_ascii=True\<close>.

  A string is quoted; the backslash, the double quote and the control characters with a
  short form are escaped by it, every other character outside \<open>0x20 .. 0x7E\<close> as
  \<^verbatim>\<open>\u00XX\<close> with lower-case hexadecimal digits.
\<close>

definition hex_digit :: "nat \<Rightarrow> char" where
  "hex_digit n = ''0123456789abcdef'' ! n"

definition escape_char :: "char \<Rightarrow> string" where
  "escape_char c =
     (if c = CHR 0x5C then [CHR 0x5C, CHR 0x5C]
      else if c = CHR 0x22 then [CHR 0x5C, CHR 0x22]
      else if c = CHR 0x08 then [CHR 0x5C, CHR ''b'']
      else if c = CHR 0x0C then [CHR 0x5C, CHR ''f'']
      else if c = CHR 0x0A then [CHR 0x5C, CHR ''n'']
      else if c = CHR 0x0D then [CHR 0x5C, CHR ''r'']
      else if c = CHR 0x09 then [CHR 0x5C, CHR ''t'']
      else if (0x20 :: nat) \<le> of_char c \<and> of_char c \<le> (0x7E :: nat) then [c]
      else [CHR 0x5C, CHR ''u'', CHR ''0'', CHR ''0'',
            hex_digit (of_char c div 16), hex_digit (of_char c mod 16)])"

definition encode_basestring_ascii :: "string \<Rightarrow> string" where
  "encode_basestring_ascii s = CHR 0x22 # concat (map escape_char s) @ [CHR 0x22]"

text \<open>\<^verbatim>\<open>int.__repr__\<close>: decimal digits, with a minus sign for a negative number.\<close>

fun digits :: "nat \<Rightarrow> string" where
  "digits n = (if n < 10 then [hex_digit n] else digits (n div 10) @ [hex_digit (n mod 10)])"

declare digits.simps [simp del]

definition int_repr :: "int \<Rightarrow> string" where
  "int_repr i = (if i < 0 then CHR ''-'' # digits (nat (- i)) else digits (nat i))"

text \<open>The text of a dictionary key: a key that is not a string is converted.\<close>

fun key_str :: "key \<Rightarrow> string" where
  "key_str (KStr s) = s"
| "key_str (KBool b) = (if b then ''true'' else ''false'')"
| "key_str KNone = ''null''"
| "key_str (KInt i) = int_repr i"

text \<open>
  \<^verbatim>\<open>sorted(dct.items())\<close> compares the keys themselves, before their conversion:
  strings by code points, numbers (and booleans) by value. Keys of different kinds
  do not compare: sorting two or more items raises \<^verbatim>\<open>TypeError\<close> unless the keys are
  all strings or all numbers.
\<close>

fun key_le :: "key \<Rightarrow> key \<Rightarrow> bool" where
  "key_le (KStr a) (KStr b) = (a \<le> b)"
| "key_le a b = (case (key_num a, key_num b) of (Some m, Some n) \<Rightarrow> m \<le> n | _ \<Rightarrow> False)"

fun is_KStr :: "key \<Rightarrow> bool" where
  "is_KStr (KStr s) = True"
| "is_KStr _ = False"

definition comparable :: "key list \<Rightarrow> bool" where
  "comparable ks =
     (length ks \<le> 1 \<or> list_all is_KStr ks \<or> list_all (\<lambda>k. key_num k \<noteq> None) ks)"

fun insort_item :: "key \<times> 'a \<Rightarrow> (key \<times> 'a) list \<Rightarrow> (key \<times> 'a) list" where
  "insort_item x [] = [x]"
| "insort_item x (y # ys) =
     (if key_le (fst x) (fst y) then x # y # ys else y # insort_item x ys)"

definition sort_items :: "(key \<times> 'a) list \<Rightarrow> (key \<times> 'a) list" where
  "sort_items xs = foldr insort_item xs []"

definition newline_indent :: "nat \<Rightarrow> string" where
  "newline_indent level = CHR 0x0A # replicate (4 * level) (CHR '' '')"

fun join :: "string \<Rightarrow> string list \<Rightarrow> string" where
  "join sep [] = []"
| "join sep [x] = x"
| "join sep (x # y # ys) = x @ sep @ join sep (y # ys)"

text \<open>
  The encoder at a nesting level. The items of a dictionary are encoded and then put in
  the order of their keys: the text of an item does not depend on its position, so this
  is the text the library produces by sorting first.
\<close>

fun encode :: "nat \<Rightarrow> json \<Rightarrow> string" where
  "encode level JNull = ''null''"
| "encode level (JBool b) = (if b then ''true'' else ''false'')"
| "encode level (JInt i) = int_repr i"
| "encode level (JStr s) = encode_basestring_ascii s"
| "encode level (JList xs) =
     (if xs = [] then ''[]''
      else ''['' @ newline_indent (level + 1)
           @ join ('','' @ newline_indent (level + 1)) (map (encode (level + 1)) xs)
           @ newline_indent level @ '']'')"
| "encode level (JDict kvs) =
     (if kvs = [] then ''{}''
      else ''{'' @ newline_indent (level + 1)
           @ join ('','' @ newline_indent (level + 1))
               (map (\<lambda>(k, t). encode_basestring_ascii (key_str k) @ '': '' @ t)
                  (sort_items (map (\<lambda>(k, v). (k, encode (level + 1) v)) kvs)))
           @ newline_indent level @ ''}'')"

text \<open>Whether every dictionary inside a value can be sorted.\<close>

fun sortable :: "json \<Rightarrow> bool" where
  "sortable (JList xs) = list_all sortable xs"
| "sortable (JDict kvs) = (comparable (map fst kvs) \<and> list_all (\<lambda>(k, v). sortable v) kvs)"
| "sortable _ = True"

definition dumps :: "json \<Rightarrow> exn + string" where
  "dumps v = (if sortable v then Inr (encode 0 v) else Inl TypeError)"

section \<open>The synchronisation loop\<close>

subsection \<open>String and path operations\<close>

text \<open>
  \<^verbatim>\<open>s.replace(old, new)\<close> for a non-empty \<^verbatim>\<open>old\<close> (the source replaces \<^verbatim>\<open>' - '\<close> and
  \<^verbatim>\<open>' '\<close>): the occurrences are replaced from the left, without overlap.
\<close>

fun replace :: "string \<Rightarrow> string \<Rightarrow> string \<Rightarrow> string" where
  "replace old new [] = []"
| "replace old new (c # cs) =
     (if old \<noteq> [] \<and> take (length old) (c # cs) = old
      then new @ replace old new (drop (length old - 1) cs)
      else c # replace old new cs)"

definition PSYTOOLS_FU3_MASTER_DIR :: string where
  "PSYTOOLS_FU3_MASTER_DIR = ''/neurospin/imagen/FU3/RAW/PSC1/psytools''"

text \<open>\<^verbatim>\<open>os.path.join(a, b)\<close> on a POSIX system.\<close>

definition path_join :: "string \<Rightarrow> string \<Rightarrow> string" where
  "path_join a b =
     (if b \<noteq> [] \<and> hd b = CHR ''/'' then b
      else if a = [] \<or> last a = CHR ''/'' then a @ b
      else a @ ''/'' @ b)"

text \<open>
  The path of a survey's file; a title that is not a string has no \<^verbatim>\<open>replace\<close>
  method.
\<close>

definition psytools_path :: "json \<Rightarrow> exn + string" where
  "psytools_path title =
     (case title of
        JStr t \<Rightarrow>
          Inr (path_join PSYTOOLS_FU3_MASTER_DIR
                 (replace '' '' ''_'' (replace '' - '' ''-'' t) @ ''.json''))
      | _ \<Rightarrow> Inl AttributeError)"

subsection \<open>Tokens and PSC1 codes\<close>

text \<open>
  The loop over the participants, which fills the dictionary \<^verbatim>\<open>psc1_from_token\<close>.
\<close>

fun psc1_from_token :: "json list \<Rightarrow> (key \<times> json) list \<Rightarrow> exn + (key \<times> json) list" where
  "psc1_from_token [] m = Inr m"
| "psc1_from_token (participant # ps) m =
     (case getitem participant ''tid'' of
        Inl e \<Rightarrow> Inl e
      | Inr tid \<Rightarrow>
          (case getitem participant ''token'' of
             Inl e \<Rightarrow> Inl e
           | Inr token \<Rightarrow>
               (case getitem participant ''attribute_1'' of
                  Inl e \<Rightarrow> Inl e
                | Inr psc1 \<Rightarrow>
                    (case to_key token of
                       None \<Rightarrow> Inl TypeError
                     | Some t \<Rightarrow> psc1_from_token ps (dict_set m t psc1)))))"

text \<open>
  The dictionary comprehension
  \<^verbatim>\<open>{psc1_from_token[v['token']]: v for k, v in r.items()}\<close>: the items of \<^verbatim>\<open>r\<close> in
  order, the new dictionary as built so far.
\<close>

fun rekey_items ::
  "(key \<times> json) list \<Rightarrow> (key \<times> json) list \<Rightarrow> (key \<times> json) list \<Rightarrow> exn + (key \<times> json) list" where
  "rekey_items m [] acc = Inr acc"
| "rekey_items m ((k, v) # items) acc =
     (case getitem v ''token'' of
        Inl e \<Rightarrow> Inl e
      | Inr token \<Rightarrow>
          (case to_key token of
             None \<Rightarrow> Inl TypeError
           | Some t \<Rightarrow>
               (case dict_get m t of
                  None \<Rightarrow> Inl (KeyError t)
                | Some psc1 \<Rightarrow>
                    (case to_key psc1 of
                       None \<Rightarrow> Inl TypeError
                     | Some p \<Rightarrow> rekey_items m items (dict_set acc p v)))))"

text \<open>\<^verbatim>\<open>r.items()\<close> exists for a dictionary only.\<close>

definition rekey_record :: "(key \<times> json) list \<Rightarrow> json \<Rightarrow> exn + json" where
  "rekey_record m r =
     (case r of
        JDict items \<Rightarrow>
          (case rekey_items m items [] of Inl e \<Rightarrow> Inl e | Inr d \<Rightarrow> Inr (JDict d))
      | _ \<Rightarrow> Inl AttributeError)"

fun rekey_list :: "(key \<times> json) list \<Rightarrow> json list \<Rightarrow> exn + json list" where
  "rekey_list m [] = Inr []"
| "rekey_list m (r # rs) =
     (case rekey_record m r of
        Inl e \<Rightarrow> Inl e
      | Inr d \<Rightarrow>
          (case rekey_list m rs of Inl e \<Rightarrow> Inl e | Inr ds \<Rightarrow> Inr (d # ds)))"

text \<open>\<^verbatim>\<open>'name' in obj\<close>.\<close>

fun substring :: "string \<Rightarrow> string \<Rightarrow> bool" where
  "substring x [] = (x = [])"
| "substring x (c # cs) = (take (length x) (c # cs) = x \<or> substring x cs)"

fun contains :: "json \<Rightarrow> string \<Rightarrow> exn + bool" where
  "contains (JDict kvs) name = Inr (dict_get kvs (KStr name) \<noteq> None)"
| "contains (JList xs) name = Inr (JStr name \<in> set xs)"
| "contains (JStr s) name = Inr (substring name s)"
| "contains _ name = Inl TypeError"

text \<open>
  The rewriting of \<^verbatim>\<open>responses['responses']\<close> (lines 270 to 273 of the source).
\<close>

definition rekey :: "(key \<times> json) list \<Rightarrow> json \<Rightarrow> exn + json" where
  "rekey m rsp =
     (case contains rsp ''responses'' of
        Inl e \<Rightarrow> Inl e
      | Inr False \<Rightarrow> Inr rsp
      | Inr True \<Rightarrow>
          (case getitem rsp ''responses'' of
             Inl e \<Rightarrow> Inl e
           | Inr rs \<Rightarrow>
               (case py_iter rs of
                  Inl e \<Rightarrow> Inl e
                | Inr rl \<Rightarrow>
                    (case rekey_list m rl of
                       Inl e \<Rightarrow> Inl e
                     | Inr ds \<Rightarrow>
                         (case rsp of
                            JDict kvs \<Rightarrow> Inr (JDict (dict_set kvs (KStr ''responses'') (JList ds)))
                          | _ \<Rightarrow> Inl TypeError)))))"

subsection \<open>One survey\<close>

text \<open>
  The body of the loop up to the file name (lines 251 to 282): the path of the file and
  the text to store in it.
\<close>

definition survey_artifact ::
  "remote \<Rightarrow> session \<Rightarrow> json \<Rightarrow> world \<Rightarrow> (exn + string \<times> string) \<times> world" where
  "survey_artifact R s survey w =
     (case getitem survey ''surveyls_title'' of
        Inl e \<Rightarrow> (Inl e, w)
      | Inr title \<Rightarrow>
     (case getitem survey ''sid'' of
        Inl e \<Rightarrow> (Inl e, w)
      | Inr sid \<Rightarrow>
     (case participants R s sid (JList [JStr ''attribute_1'']) w of
        (Inl e, w1) \<Rightarrow> (Inl e, w1)
      | (Inr ps, w1) \<Rightarrow>
     (case py_iter ps of
        Inl e \<Rightarrow> (Inl e, w1)
      | Inr pl \<Rightarrow>
     (case psc1_from_token pl [] of
        Inl e \<Rightarrow> (Inl e, w1)
      | Inr m \<Rightarrow>
     (case responses R s sid (JStr ''all'') w1 of
        (Inl e, w2) \<Rightarrow> (Inl e, w2)
      | (Inr rsp, w2) \<Rightarrow>
     (case rekey m rsp of
        Inl e \<Rightarrow> (Inl e, w2)
      | Inr rsp' \<Rightarrow>
     (case dumps rsp' of
        Inl e \<Rightarrow> (Inl e, w2)
      | Inr data \<Rightarrow>
     (case psytools_path title of
        Inl e \<Rightarrow> (Inl e, w2)
      | Inr path \<Rightarrow> (Inr (path, data), w2))))))))))"

text \<open>
  The file of a survey is opened in text mode, for reading and for writing. The encoding
  is the one of the locale, taken to be UTF-8, on a POSIX system. Reading decodes the
  bytes, strictly (\<^verbatim>\<open>UnicodeDecodeError\<close> on a byte sequence that is not UTF-8), into code
  points, and then turns every \<^verbatim>\<open>\r\n\<close> and every other \<^verbatim>\<open>\r\<close> into \<^verbatim>\<open>\n\<close> (universal
  newlines). Writing encodes the text and changes no line end.
\<close>

definition continuation :: "nat \<Rightarrow> bool" where
  "continuation b = (0x80 \<le> b \<and> b \<le> 0xBF)"

text \<open>
  The byte after the first byte of a sequence: its range is narrower after \<open>E0\<close> and
  \<open>F0\<close> (no overlong form), after \<open>ED\<close> (no surrogate) and after \<open>F4\<close> (nothing above
  \<open>10FFFF\<close>).
\<close>

definition second_byte :: "nat \<Rightarrow> nat \<Rightarrow> bool" where
  "second_byte b b1 =
     ((if b = 0xE0 then 0xA0 else if b = 0xF0 then 0x90 else 0x80) \<le> b1
      \<and> b1 \<le> (if b = 0xED then 0x9F else if b = 0xF4 then 0x8F else 0xBF))"

fun utf8_decode :: "nat list \<Rightarrow> nat list option" where
  "utf8_decode [] = Some []"
| "utf8_decode (b # bs) =
     (if b < 0x80 then map_option ((#) b) (utf8_decode bs)
      else if 0xC2 \<le> b \<and> b \<le> 0xDF then
        (case bs of
           b1 # r \<Rightarrow>
             if continuation b1
             then map_option ((#) ((b - 0xC0) * 64 + (b1 - 0x80))) (utf8_decode r)
             else None
         | _ \<Rightarrow> None)
      else if 0xE0 \<le> b \<and> b \<le> 0xEF then
        (case bs of
           b1 # b2 # r \<Rightarrow>
             if second_byte b b1 \<and> continuation b2
             then map_option ((#) (((b - 0xE0) * 64 + (b1 - 0x80)) * 64 + (b2 - 0x80)))
                    (utf8_decode r)
             else None
         | _ \<Rightarrow> None)
      else if 0xF0 \<le> b \<and> b \<le> 0xF4 then
        (case bs of
           b1 # b2 # b3 # r \<Rightarrow>
             if second_byte b b1 \<and> continuation b2 \<and> continuation b3
             then map_option
                    ((#) ((((b - 0xF0) * 64 + (b1 - 0x80)) * 64 + (b2 - 0x80)) * 64 + (b3 - 0x80)))
                    (utf8_decode r)
             else None
         | _ \<Rightarrow> None)
      else None)"

fun universal_newlines :: "nat list \<Rightarrow> nat list" where
  "universal_newlines [] = []"
| "universal_newlines [c] = [if c = 0x0D then 0x0A else c]"
| "universal_newlines (c # d # cs) =
     (if c = 0x0D \<and> d = 0x0A then 0x0A # universal_newlines cs
      else if c = 0x0D then 0x0A # universal_newlines (d # cs)
      else c # universal_newlines (d # cs))"

text \<open>
  A text of ASCII characters without carriage return, as \<^verbatim>\<open>json.dumps\<close> produces: its
  bytes are its characters, and it is read back as it is.
\<close>

definition plain_text :: "string \<Rightarrow> bool" where
  "plain_text s = list_all (\<lambda>c. (of_char c :: nat) < 0x80 \<and> c \<noteq> CHR 0x0D) s"

text \<open>\<^verbatim>\<open>open(path, 'r').read()\<close> on the bytes of a file: the code points of the text.\<close>

definition read_text :: "string \<Rightarrow> nat list option" where
  "read_text bytes = map_option universal_newlines (utf8_decode (map of_char bytes))"

text \<open>The bytes \<^verbatim>\<open>write\<close> stores for a text (of characters up to 255).\<close>

definition utf8_encode :: "string \<Rightarrow> string" where
  "utf8_encode text =
     concat (map (\<lambda>c. if (of_char c :: nat) < 0x80 then [c]
                        else [char_of (0xC0 + (of_char c :: nat) div 64),
                              char_of (0x80 + (of_char c :: nat) mod 64)]) text)"

text \<open>
  Lines 286 to 291: whether the file exists (\<^verbatim>\<open>os.path.isfile\<close>) and reads as the text
  \<^verbatim>\<open>data\<close>. Opening the file and decoding it can raise.
\<close>

definition unchanged :: "string \<Rightarrow> string \<Rightarrow> world \<Rightarrow> exn + bool" where
  "unchanged path data w =
     (case files w path of
        None \<Rightarrow> Inr False
      | Some bytes \<Rightarrow>
          if \<not> readable w path then Inl OSError
          else
            (case read_text bytes of
               None \<Rightarrow> Inl UnicodeDecodeError
             | Some text \<Rightarrow> Inr (text = map of_char data)))"

text \<open>
  The end of the body (lines 284 to 296): a file that reads as the text is left alone, and
  nothing is recorded as written; otherwise the path is opened for writing, which can
  raise, and the text is written.
\<close>

definition save :: "string \<Rightarrow> string \<Rightarrow> world \<Rightarrow> (exn + unit) \<times> world" where
  "save path data w =
     (case unchanged path data w of
        Inl e \<Rightarrow> (Inl e, w)
      | Inr True \<Rightarrow> (Inr (), w)
      | Inr False \<Rightarrow>
          if writable w path
          then (Inr (), w\<lparr>files := (files w)(path \<mapsto> utf8_encode data),
                           written := written w @ [path]\<rparr>)
          else (Inl OSError, w))"

definition download_survey ::
  "remote \<Rightarrow> session \<Rightarrow> json \<Rightarrow> world \<Rightarrow> (exn + unit) \<times> world" where
  "download_survey R s survey w =
     (case survey_artifact R s survey w of
        (Inl e, w') \<Rightarrow> (Inl e, w')
      | (Inr (path, data), w') \<Rightarrow> save path data w')"

subsection \<open>The run\<close>

text \<open>
  \<^verbatim>\<open>for survey in surveys\<close>: an exception raised by the body leaves the loop, since the
  source has no handler around it.
\<close>

fun download_loop :: "remote \<Rightarrow> session \<Rightarrow> json list \<Rightarrow> world \<Rightarrow> (exn + unit) \<times> world" where
  "download_loop R s [] w = (Inr (), w)"
| "download_loop R s (survey # rest) w =
     (case download_survey R s survey w of
        (Inl e, w') \<Rightarrow> (Inl e, w')
      | (Inr _, w') \<Rightarrow> download_loop R s rest w')"

text \<open>The block under \<^verbatim>\<open>with\<close>.\<close>

definition download_body :: "remote \<Rightarrow> session \<Rightarrow> world \<Rightarrow> (exn + unit) \<times> world" where
  "download_body R s w =
     (case surveys R s w of
        (Inl e, w') \<Rightarrow> (Inl e, w')
      | (Inr sv, w') \<Rightarrow>
          (case py_iter sv of
             Inl e \<Rightarrow> (Inl e, w')
           | Inr svs \<Rightarrow> download_loop R s svs w'))"

text \<open>
  \<^verbatim>\<open>download_json\<close>, with the credentials that \<^verbatim>\<open>_get_netrc_auth\<close> found. The
  \<^verbatim>\<open>with\<close> statement constructs the session; when the constructor raises, the block is
  not entered and nothing is closed. Otherwise \<^verbatim>\<open>__exit__\<close> calls \<^verbatim>\<open>close\<close> however
  the block ended, and returns \<^verbatim>\<open>False\<close>: an exception of the block is raised again,
  unless \<^verbatim>\<open>close\<close> raised one of its own.
\<close>

definition download_json ::
  "remote \<Rightarrow> string \<Rightarrow> json \<Rightarrow> json \<Rightarrow> world \<Rightarrow> (exn + unit) \<times> world" where
  "download_json R base_url username password w =
     (case init R base_url username password w of
        (Inl e, w1) \<Rightarrow> (Inl e, w1)
      | (Inr s, w1) \<Rightarrow>
          (case download_body R s w1 of
             (r, w2) \<Rightarrow>
               (case close R s w2 of
                  (Inl e, w3) \<Rightarrow> (Inl e, w3)
                | (Inr _, w3) \<Rightarrow> (r, w3))))"

text \<open>The number of \<^verbatim>\<open>release_session_key\<close> requests posted so far.\<close>

definition releases :: "world \<Rightarrow> nat" where
  "releases w = length (filter (\<lambda>rq. req_method rq = ''release_session_key'') (posted w))"

text \<open>The state after one more request has been posted.\<close>

definition after_post :: "world \<Rightarrow> string \<Rightarrow> json list \<Rightarrow> world" where
  "after_post w method params =
     w\<lparr>request_id := request_id w + 1,
       posted := posted w @ [Request (request_id w + 1) method params]\<rparr>"

section \<open>Concrete runs\<close>

text \<open>
  Replies of a LimeSurvey server, used to run the program on concrete inputs. A reply
  echoes the identifier of the request.
\<close>

definition reply :: "request \<Rightarrow> json \<Rightarrow> json \<Rightarrow> exn + json" where
  "reply rq result error =
     Inr (JDict [(KStr ''id'', JInt (req_id rq)), (KStr ''result'', result),
                 (KStr ''error'', error)])"

definition lime_server ::
  "json \<Rightarrow> json \<Rightarrow> (json \<Rightarrow> json) \<Rightarrow> (json \<Rightarrow> json) \<Rightarrow> request \<Rightarrow> exn + json" where
  "lime_server session_key survey_list participant_list export rq =
     (if req_method rq = ''get_session_key'' then reply rq session_key JNull
      else if req_method rq = ''list_surveys'' then reply rq survey_list JNull
      else if req_method rq = ''list_participants''
        then reply rq (participant_list (req_params rq ! 1)) JNull
      else if req_method rq = ''export_responses''
        then reply rq (export (req_params rq ! 1)) JNull
      else reply rq (JStr ''OK'') JNull)"

text \<open>
  The output directory exists and has no subdirectory; it is empty at first, and every
  file in it can be read.
\<close>

definition in_master_dir :: "string \<Rightarrow> bool" where
  "in_master_dir p =
     (take (length PSYTOOLS_FU3_MASTER_DIR + 1) p = PSYTOOLS_FU3_MASTER_DIR @ ''/''
      \<and> CHR ''/'' \<notin> set (drop (length PSYTOOLS_FU3_MASTER_DIR + 1) p))"

definition initial_world :: world where
  "initial_world =
     \<lparr>request_id = 0, posted = [], files = Map.empty, written = [],
      readable = (\<lambda>p. True), writable = in_master_dir\<rparr>"

definition base_url :: string where
  "base_url = ''https://www.delosis.com/qs/index.php/admin/remotecontrol''"

definition open_session :: session where
  "open_session = \<lparr>url = base_url, key = JStr ''KEY'', http_closed = False\<rparr>"

definition closed_session :: session where
  "closed_session = \<lparr>url = base_url, key = JNull, http_closed = True\<rparr>"

text \<open>
  A server that reports the empty-result status and a JSON-RPC error object in the same
  reply.
\<close>

definition server_error :: json where
  "server_error = JDict [(KStr ''code'', JInt (- 32000)), (KStr ''message'', JStr ''Server error'')]"

definition conflicting_server :: "request \<Rightarrow> exn + json" where
  "conflicting_server rq =
     (if req_method rq = ''list_participants''
        then reply rq (JDict [(KStr ''status'', JStr ''No Tokens found'')]) server_error
      else if req_method rq = ''export_responses''
        then reply rq (JDict [(KStr ''status'', JStr ''No Data, could not get max id.'')])
               server_error
      else reply rq (JStr ''OK'') JNull)"

definition conflicting :: remote where
  "conflicting = \<lparr>server = conflicting_server, b64_json = (\<lambda>s. Inl ValueError)\<rparr>"

text \<open>
  The example of the specification: one survey, one participant, one response. The
  export arrives as Base64 text; three exports are used below: the response of the
  example as it is written (\<open>plain_export\<close>), the same response with the \<^verbatim>\<open>token\<close> field
  that LimeSurvey puts into a response (\<open>token_export\<close>), and two responses of which the
  first carries a token that no participant has (\<open>stray_export\<close>).
\<close>

definition plain_export :: json where
  "plain_export =
     JDict [(KStr ''responses'',
       JList [JDict [(KStr ''abc'', JDict [(KStr ''q1'', JStr ''5'')])]])]"

definition token_export :: json where
  "token_export =
     JDict [(KStr ''responses'',
       JList [JDict [(KStr ''abc'',
         JDict [(KStr ''q1'', JStr ''5''), (KStr ''token'', JStr ''abc'')])]])]"

definition stray_export :: json where
  "stray_export =
     JDict [(KStr ''responses'',
       JList [JDict [(KStr ''1'',
                JDict [(KStr ''q1'', JStr ''3''), (KStr ''token'', JStr ''zzz'')])],
              JDict [(KStr ''2'',
                JDict [(KStr ''q1'', JStr ''5''), (KStr ''token'', JStr ''abc'')])]])]"

definition example_b64_json :: "string \<Rightarrow> exn + json" where
  "example_b64_json s =
     (if s = ''eyJyZXNwb25zZXMiOlt7ImFiYyI6eyJxMSI6IjUifX1dfQ=='' then Inr plain_export
      else if s = ''eyJyZXNwb25zZXMiOlt7ImFiYyI6eyJxMSI6IjUiLCJ0b2tlbiI6ImFiYyJ9fV19''
        then Inr token_export
      else if s = ''eyJyZXNwb25zZXMiOlt7IjEiOnsicTEiOiIzIiwidG9rZW4iOiJ6enoifX0seyIyIjp7InExIjoiNSIsInRva2VuIjoiYWJjIn19XX0=''
        then Inr stray_export
      else Inl ValueError)"

definition example_surveys :: json where
  "example_surveys =
     JList [JDict [(KStr ''sid'', JInt 1), (KStr ''surveyls_title'', JStr ''T1 - Baseline'')]]"

definition example_participants :: json where
  "example_participants =
     JList [JDict [(KStr ''tid'', JInt 1), (KStr ''token'', JStr ''abc''),
                   (KStr ''attribute_1'', JStr ''PSC001'')]]"

definition example_remote :: "string \<Rightarrow> remote" where
  "example_remote payload =
     \<lparr>server = lime_server (JStr ''KEY'') example_surveys (\<lambda>sid. example_participants)
                 (\<lambda>sid. JStr payload),
      b64_json = example_b64_json\<rparr>"

definition plain_remote :: remote where
  "plain_remote = example_remote ''eyJyZXNwb25zZXMiOlt7ImFiYyI6eyJxMSI6IjUifX1dfQ==''"

definition token_remote :: remote where
  "token_remote =
     example_remote ''eyJyZXNwb25zZXMiOlt7ImFiYyI6eyJxMSI6IjUiLCJ0b2tlbiI6ImFiYyJ9fV19''"

definition stray_remote :: remote where
  "stray_remote =
     example_remote
       ''eyJyZXNwb25zZXMiOlt7IjEiOnsicTEiOiIzIiwidG9rZW4iOiJ6enoifX0seyIyIjp7InExIjoiNSIsInRva2VuIjoiYWJjIn19XX0=''"

definition example_path :: string where
  "example_path = ''/neurospin/imagen/FU3/RAW/PSC1/psytools/T1-Baseline.json''"

text \<open>
  Two surveys; the server has no participant table for the first one and answers
  \<^verbatim>\<open>list_participants\<close> with a status that is not the empty-result one.
\<close>

definition two_surveys :: json where
  "two_surveys =
     JList [JDict [(KStr ''sid'', JInt 1), (KStr ''surveyls_title'', JStr ''T1 - Baseline'')],
            JDict [(KStr ''sid'', JInt 2), (KStr ''surveyls_title'', JStr ''T2 - Follow up'')]]"

definition broken_first :: remote where
  "broken_first =
     \<lparr>server = lime_server (JStr ''KEY'') two_surveys
                 (\<lambda>sid. if sid = JInt 1
                    then JDict [(KStr ''status'', JStr ''Error: No survey participants table'')]
                    else example_participants)
                 (\<lambda>sid. JStr ''eyJyZXNwb25zZXMiOlt7ImFiYyI6eyJxMSI6IjUiLCJ0b2tlbiI6ImFiYyJ9fV19''),
      b64_json = example_b64_json\<rparr>"

text \<open>A server that rejects the credentials, and then every call made without a key.\<close>

definition rejecting :: remote where
  "rejecting =
     \<lparr>server = lime_server (JDict [(KStr ''status'', JStr ''Invalid user name or password'')])
                 (JDict [(KStr ''status'', JStr ''Invalid session key'')])
                 (\<lambda>sid. JDict [(KStr ''status'', JStr ''Invalid session key'')])
                 (\<lambda>sid. JDict [(KStr ''status'', JStr ''Invalid session key'')]),
      b64_json = (\<lambda>s. Inl ValueError)\<rparr>"

text \<open>
  The text \<^verbatim>\<open>json.dumps\<close> produces for the export of the example once it is re-keyed.
\<close>

definition dq :: "string \<Rightarrow> string" where
  "dq s = [CHR 0x22] @ s @ [CHR 0x22]"

definition example_lines :: "string list" where
  "example_lines =
     [''{'',
      ''    '' @ dq ''responses'' @ '': ['',
      ''        {'',
      ''            '' @ dq ''PSC001'' @ '': {'',
      ''                '' @ dq ''q1'' @ '': '' @ dq ''5'' @ '','',
      ''                '' @ dq ''token'' @ '': '' @ dq ''abc'',
      ''            }'',
      ''        }'',
      ''    ]'',
      ''}'']"

definition example_text :: string where
  "example_text = join [CHR 0x0A] example_lines"

text \<open>
  The same lines with the line ends of another system, in a file of the output
  directory; and a survey whose title has a slash.
\<close>

definition crlf_text :: string where
  "crlf_text = join [CHR 0x0D, CHR 0x0A] example_lines"

definition crlf_world :: world where
  "crlf_world = initial_world\<lparr>files := [example_path \<mapsto> crlf_text]\<rparr>"

definition stored_world :: world where
  "stored_world = initial_world\<lparr>files := [example_path \<mapsto> example_text]\<rparr>"

definition slash_survey :: json where
  "slash_survey = JDict [(KStr ''sid'', JInt 1), (KStr ''surveyls_title'', JStr ''A/B'')]"

definition rekeyed_export :: json where
  "rekeyed_export =
     JDict [(KStr ''responses'',
       JList [JDict [(KStr ''PSC001'',
         JDict [(KStr ''q1'', JStr ''5''), (KStr ''token'', JStr ''abc'')])]])]"

text \<open>A new process on the file system a run has left: the counter starts again.\<close>

definition restart :: "world \<Rightarrow> world" where
  "restart w =
     \<lparr>request_id = 0, posted = [], files = files w, written = [],
      readable = readable w, writable = writable w\<rparr>"

definition first_survey :: json where
  "first_survey = JDict [(KStr ''sid'', JInt 1), (KStr ''surveyls_title'', JStr ''T1 - Baseline'')]"

definition second_survey :: json where
  "second_survey = JDict [(KStr ''sid'', JInt 2), (KStr ''surveyls_title'', JStr ''T2 - Follow up'')]"

section \<open>The effect of the operations on the state\<close>

text \<open>
  Every operation of the session posts exactly one request, which carries the key the
  session holds at that moment, and touches nothing else.
\<close>
lemma snd_post: "snd (post R rq w) = w\<lparr>posted := posted w @ [rq]\<rparr>"
  by (simp add: post_def Let_def split: sum.splits)

lemma snd_error2exception: "snd (error2exception r) = snd r"
  by (cases r) (simp add: error2exception_def split: sum.splits prod.splits)

lemma snd_surveys_post:
  "snd (surveys_post R s w) = after_post w ''list_surveys'' [key s]"
  by (simp add: surveys_post_def request_def generate_request_id_def snd_post after_post_def)

lemma snd_surveys: "snd (surveys R s w) = after_post w ''list_surveys'' [key s]"
  by (simp add: surveys_def snd_error2exception snd_surveys_post)

lemma snd_participants_post:
  "snd (participants_post R s survey attributes w) =
     after_post w ''list_participants'' [key s, survey, JInt 0, JInt 5000, JBool False, attributes]"
  by (simp add: participants_post_def request_def generate_request_id_def snd_post after_post_def)

lemma snd_participants:
  "snd (participants R s survey attributes w) =
     after_post w ''list_participants'' [key s, survey, JInt 0, JInt 5000, JBool False, attributes]"
  using snd_participants_post [of R s survey attributes w]
  by (auto simp: participants_def snd_error2exception split: prod.splits sum.splits)

lemma snd_responses_post:
  "snd (responses_post R s survey status w) =
     after_post w ''export_responses'' [key s, survey, JStr ''json'', JStr ''fr'', status]"
  by (simp add: responses_post_def request_def generate_request_id_def snd_post after_post_def)

lemma snd_responses:
  "snd (responses R s survey status w) =
     after_post w ''export_responses'' [key s, survey, JStr ''json'', JStr ''fr'', status]"
  using snd_responses_post [of R s survey status w]
  by (auto simp: responses_def snd_error2exception split: prod.splits sum.splits exn.splits)

lemma snd_get_session_key:
  "snd (get_session_key R username password w) =
     after_post w ''get_session_key'' [username, password]"
  using snd_post [of R "Request (request_id w + 1) ''get_session_key'' [username, password]"
                    "w\<lparr>request_id := request_id w + 1\<rparr>"]
  by (auto simp: get_session_key_def request_def generate_request_id_def after_post_def
           split: prod.splits sum.splits)

lemma snd_release_session_key:
  "snd (release_session_key R k w) = after_post w ''release_session_key'' [k]"
  using snd_post [of R "Request (request_id w + 1) ''release_session_key'' [k]"
                    "w\<lparr>request_id := request_id w + 1\<rparr>"]
  by (auto simp: release_session_key_def request_def generate_request_id_def after_post_def
           split: prod.splits sum.splits)

lemma snd_init:
  "snd (init R u username password w) = after_post w ''get_session_key'' [username, password]"
  using snd_get_session_key [of R username password w]
  by (auto simp: init_def split: prod.splits sum.splits)

lemma snd_close:
  "snd (close R s w) = after_post w ''release_session_key'' [key s]"
  using snd_release_session_key [of R "key s" w]
  by (auto simp: close_def split: prod.splits sum.splits)


section \<open>The empty-result status\<close>

lemma getitem_Inr_dict: "getitem payload name = Inr v \<Longrightarrow> \<exists>kvs. payload = JDict kvs"
  by (cases payload) auto

text \<open>
  Claim C1. When the payload of the reply to \<^verbatim>\<open>list_participants\<close> is a dictionary whose
  \<^verbatim>\<open>status\<close> is \<^verbatim>\<open>'No Tokens found'\<close>, \<^verbatim>\<open>participants\<close> returns the empty list, and when
  the payload of the reply to \<^verbatim>\<open>export_responses\<close> is a dictionary whose \<^verbatim>\<open>status\<close> is
  \<^verbatim>\<open>'No Data, could not get max id.'\<close>, \<^verbatim>\<open>responses\<close> returns the empty response set
  \<^verbatim>\<open>{'responses': []}\<close>. Neither raises, whatever the \<^verbatim>\<open>error\<close> member of the same reply
  holds, a conformant JSON-RPC error object included.
\<close>

theorem sentinel_is_success:
  "(participants_post R s survey attributes w = (Inr (payload, error), w')
      \<and> getitem payload ''status'' = Inr (JStr ''No Tokens found'')
      \<longrightarrow> participants R s survey attributes w = (Inr (JList []), w'))
   \<and> (responses_post R s survey status w = (Inr (payload, error), w')
      \<and> getitem payload ''status'' = Inr (JStr ''No Data, could not get max id.'')
      \<longrightarrow> responses R s survey status w = (Inr (JDict [(KStr ''responses'', JList [])]), w'))"
proof (intro conjI impI)
  assume h: "participants_post R s survey attributes w = (Inr (payload, error), w')
      \<and> getitem payload ''status'' = Inr (JStr ''No Tokens found'')"
  then show "participants R s survey attributes w = (Inr (JList []), w')"
    by (simp add: participants_def participants_fix_def error2exception_def)
next
  assume h: "responses_post R s survey status w = (Inr (payload, error), w')
      \<and> getitem payload ''status'' = Inr (JStr ''No Data, could not get max id.'')"
  then obtain kvs where p: "payload = JDict kvs"
    using getitem_Inr_dict by blast
  with h show "responses R s survey status w = (Inr (JDict [(KStr ''responses'', JList [])]), w')"
    by (simp add: responses_def responses_decode_def responses_fix_def error2exception_def)
qed

theorem sentinel_is_success_witness:
  "fst (participants_post conflicting open_session (JInt 1) (JList [JStr ''attribute_1'']) initial_world)
     = Inr (JDict [(KStr ''status'', JStr ''No Tokens found'')], server_error)
   \<and> fst (participants conflicting open_session (JInt 1) (JList [JStr ''attribute_1'']) initial_world)
     = Inr (JList [])
   \<and> fst (responses_post conflicting open_session (JInt 1) (JStr ''all'') initial_world)
     = Inr (JDict [(KStr ''status'', JStr ''No Data, could not get max id.'')], server_error)
   \<and> fst (responses conflicting open_session (JInt 1) (JStr ''all'') initial_world)
     = Inr (JDict [(KStr ''responses'', JList [])])"
proof -
  let ?p = "participants_post conflicting open_session (JInt 1) (JList [JStr ''attribute_1'']) initial_world"
  let ?r = "responses_post conflicting open_session (JInt 1) (JStr ''all'') initial_world"
  have p: "fst ?p = Inr (JDict [(KStr ''status'', JStr ''No Tokens found'')], server_error)"
    by code_simp
  have r: "fst ?r = Inr (JDict [(KStr ''status'', JStr ''No Data, could not get max id.'')], server_error)"
    by code_simp
  have g1: "getitem (JDict [(KStr ''status'', JStr ''No Tokens found'')]) ''status'' = Inr (JStr ''No Tokens found'')"
    by code_simp
  have g2: "getitem (JDict [(KStr ''status'', JStr ''No Data, could not get max id.'')]) ''status''
      = Inr (JStr ''No Data, could not get max id.'')"
    by code_simp
  from p have p': "?p = (Inr (JDict [(KStr ''status'', JStr ''No Tokens found'')], server_error), snd ?p)"
    by (simp add: prod_eq_iff)
  from r have r': "?r = (Inr (JDict [(KStr ''status'', JStr ''No Data, could not get max id.'')], server_error), snd ?r)"
    by (simp add: prod_eq_iff)
  from sentinel_is_success [of conflicting open_session "JInt 1" "JList [JStr ''attribute_1'']" initial_world
      "JDict [(KStr ''status'', JStr ''No Tokens found'')]" server_error "snd ?p"] p' g1
  have c1: "fst (participants conflicting open_session (JInt 1) (JList [JStr ''attribute_1'']) initial_world) = Inr (JList [])"
    by simp
  from sentinel_is_success [where R = conflicting and s = open_session and survey = "JInt 1"
      and status = "JStr ''all''" and w = initial_world and error = server_error
      and payload = "JDict [(KStr ''status'', JStr ''No Data, could not get max id.'')]"
      and w' = "snd ?r"] r' g2
  have c2: "fst (responses conflicting open_session (JInt 1) (JStr ''all'') initial_world) = Inr (JDict [(KStr ''responses'', JList [])])"
    by simp
  from p r c1 c2 show ?thesis by simp
qed

section \<open>What a run does to the state\<close>

lemma after_post_simps:
  "files (after_post w method params) = files w"
  "written (after_post w method params) = written w"
  "readable (after_post w method params) = readable w"
  "writable (after_post w method params) = writable w"
  "request_id (after_post w method params) = request_id w + 1"
  "posted (after_post w method params) = posted w @ [Request (request_id w + 1) method params]"
  by (simp_all add: after_post_def)

lemma releases_after_post:
  "releases (after_post w method params) =
     releases w + (if method = ''release_session_key'' then 1 else 0)"
  by (simp add: releases_def after_post_def)

lemma participants_world:
  "participants R s survey attributes w = (r, w')
   \<Longrightarrow> w' = after_post w ''list_participants'' [key s, survey, JInt 0, JInt 5000, JBool False, attributes]"
  using snd_participants [of R s survey attributes w] by simp

lemma responses_world:
  "responses R s survey status w = (r, w')
   \<Longrightarrow> w' = after_post w ''export_responses'' [key s, survey, JStr ''json'', JStr ''fr'', status]"
  using snd_responses [of R s survey status w] by simp

lemma survey_artifact_world:
  "files (snd (survey_artifact R s survey w)) = files w
   \<and> written (snd (survey_artifact R s survey w)) = written w
   \<and> releases (snd (survey_artifact R s survey w)) = releases w"
  by (auto simp: survey_artifact_def after_post_simps releases_after_post
      dest!: participants_world responses_world split: sum.splits prod.splits)

lemma save_world:
  "posted (snd (save path data w)) = posted w \<and> releases (snd (save path data w)) = releases w
   \<and> request_id (snd (save path data w)) = request_id w"
  by (simp add: save_def releases_def split: sum.splits bool.splits)

lemma releases_download_survey:
  "releases (snd (download_survey R s survey w)) = releases w"
proof (cases "survey_artifact R s survey w")
  case (Pair r w')
  with survey_artifact_world [of R s survey w] have "releases w' = releases w" by simp
  with Pair show ?thesis
    by (cases r) (auto simp: download_survey_def save_world)
qed

lemma releases_download_loop:
  "releases (snd (download_loop R s svs w)) = releases w"
proof (induction svs arbitrary: w)
  case Nil
  then show ?case by simp
next
  case (Cons survey rest)
  show ?case
  proof (cases "download_survey R s survey w")
    case (Pair r w')
    with releases_download_survey [of R s survey w] have w': "releases w' = releases w" by simp
    show ?thesis
    proof (cases r)
      case (Inl e)
      with Pair w' show ?thesis by simp
    next
      case (Inr u)
      with Pair w' Cons.IH [of w'] show ?thesis by simp
    qed
  qed
qed

lemma releases_download_body:
  "releases (snd (download_body R s w)) = releases w"
proof (cases "surveys R s w")
  case (Pair r w')
  with snd_surveys [of R s w] have "releases w' = releases w"
    by (simp add: releases_after_post)
  with Pair show ?thesis
    by (auto simp: download_body_def releases_download_loop split: sum.splits)
qed

lemma download_json_world:
  assumes "fst (init R u username password w) = Inr s"
  shows "snd (download_json R u username password w) =
           after_post (snd (download_body R s (snd (init R u username password w))))
             ''release_session_key'' [key s]"
proof -
  obtain w1 where i: "init R u username password w = (Inr s, w1)"
    using assms by (cases "init R u username password w") simp
  obtain r w2 where b: "download_body R s w1 = (r, w2)"
    by (cases "download_body R s w1")
  obtain c w3 where c: "close R s w2 = (c, w3)"
    by (cases "close R s w2")
  with snd_close [of R s w2] have w3: "w3 = after_post w2 ''release_session_key'' [key s]"
    by simp
  from i b c w3 show ?thesis
    by (cases c) (simp_all add: download_json_def)
qed

section \<open>The session and its state\<close>

text \<open>
  Claim C9 says that \<^verbatim>\<open>surveys\<close>, \<^verbatim>\<open>participants\<close> and \<^verbatim>\<open>responses\<close> fail with an
  \<^verbatim>\<open>InvalidStateError\<close> and post nothing when the session is not open. The source has no
  such check and no such exception. Here a session is closed (\<^verbatim>\<open>close\<close> sets the key to
  \<^verbatim>\<open>None\<close>), and each of the three operations on the closed session posts its request,
  with \<^verbatim>\<open>None\<close> as the key, and returns what the server answers.
\<close>

theorem closed_session_still_posts:
  "fst (close token_remote open_session initial_world) = Inr closed_session
   \<and> fst (surveys token_remote closed_session initial_world) = Inr example_surveys
   \<and> posted (snd (surveys token_remote closed_session initial_world))
       = [Request 1 ''list_surveys'' [JNull]]
   \<and> fst (participants token_remote closed_session (JInt 1) (JList [JStr ''attribute_1'']) initial_world)
       = Inr example_participants
   \<and> fst (responses token_remote closed_session (JInt 1) (JStr ''all'') initial_world)
       = Inr token_export"
  by code_simp

text \<open>
  Claim C9, as the code has it. In every state of the session the three operations post
  exactly one request, whose first parameter is the key the session holds (\<^verbatim>\<open>None\<close> for
  a session that is closed or never got a key), and their outcome does not depend on
  whether the HTTP session was closed.
\<close>

theorem operations_ignore_state:
  "snd (surveys R s w) = after_post w ''list_surveys'' [key s]
   \<and> snd (participants R s survey attributes w)
       = after_post w ''list_participants'' [key s, survey, JInt 0, JInt 5000, JBool False, attributes]
   \<and> snd (responses R s survey status w)
       = after_post w ''export_responses'' [key s, survey, JStr ''json'', JStr ''fr'', status]
   \<and> surveys R (s\<lparr>http_closed := c\<rparr>) w = surveys R s w
   \<and> participants R (s\<lparr>http_closed := c\<rparr>) survey attributes w = participants R s survey attributes w
   \<and> responses R (s\<lparr>http_closed := c\<rparr>) survey status w = responses R s survey status w"
proof (intro conjI)
  show "snd (surveys R s w) = after_post w ''list_surveys'' [key s]"
    by (rule snd_surveys)
  show "snd (participants R s survey attributes w)
       = after_post w ''list_participants'' [key s, survey, JInt 0, JInt 5000, JBool False, attributes]"
    by (rule snd_participants)
  show "snd (responses R s survey status w)
       = after_post w ''export_responses'' [key s, survey, JStr ''json'', JStr ''fr'', status]"
    by (rule snd_responses)
  show "surveys R (s\<lparr>http_closed := c\<rparr>) w = surveys R s w"
    by (simp add: surveys_def surveys_post_def)
  show "participants R (s\<lparr>http_closed := c\<rparr>) survey attributes w = participants R s survey attributes w"
    by (simp add: participants_def participants_post_def)
  show "responses R (s\<lparr>http_closed := c\<rparr>) survey status w = responses R s survey status w"
    by (simp add: responses_def responses_post_def)
qed

section \<open>The page of participants\<close>

lemma length_dict_set: "length (dict_set m k v) \<le> Suc (length m)"
  by (induction m) auto

lemma length_psc1_from_token:
  "psc1_from_token pl m0 = Inr m \<Longrightarrow> length m \<le> length m0 + length pl"
proof (induction pl arbitrary: m0)
  case Nil
  then show ?case by simp
next
  case (Cons p pl)
  from Cons.prems obtain t a where
    step: "psc1_from_token pl (dict_set m0 t a) = Inr m"
    by (auto split: sum.splits option.splits)
  from Cons.IH [OF step] length_dict_set [of m0 t a] show ?case by simp
qed

lemma keys_dict_set: "fst ` set (dict_set m k v) \<subseteq> insert k (fst ` set m)"
proof (induction m)
  case Nil
  then show ?case by simp
next
  case (Cons a m)
  obtain k' v' where a: "a = (k', v')" by (cases a)
  show ?case
  proof (cases "key_eq k' k")
    case True
    with a show ?thesis by auto
  next
    case False
    with a Cons show ?thesis by auto
  qed
qed

lemma keys_psc1_from_token:
  "psc1_from_token pl m0 = Inr m \<Longrightarrow> t \<in> fst ` set m
   \<Longrightarrow> t \<in> fst ` set m0
       \<or> (\<exists>p \<in> set pl. \<exists>token. getitem p ''token'' = Inr token \<and> to_key token = Some t)"
proof (induction pl arbitrary: m0)
  case Nil
  then show ?case by simp
next
  case (Cons p pl)
  from Cons.prems(1) obtain token k a where
    tok: "getitem p ''token'' = Inr token" "to_key token = Some k"
    and step: "psc1_from_token pl (dict_set m0 k a) = Inr m"
    by (auto split: sum.splits option.splits)
  from Cons.IH [OF step Cons.prems(2)] show ?case
  proof
    assume "t \<in> fst ` set (dict_set m0 k a)"
    with keys_dict_set [of m0 k a] have "t = k \<or> t \<in> fst ` set m0" by auto
    with tok show ?thesis by auto
  next
    assume "\<exists>p \<in> set pl. \<exists>token. getitem p ''token'' = Inr token \<and> to_key token = Some t"
    then show ?thesis by auto
  qed
qed

text \<open>
  Claim C10. A call of \<^verbatim>\<open>participants\<close> posts exactly one request,
  \<^verbatim>\<open>list_participants\<close> with start 0 and limit 5000, and none after it. The dictionary
  \<^verbatim>\<open>psc1_from_token\<close> is built from the entries of that one reply: each of its keys is the
  token of an entry, and it has no more items than the reply has entries, so at most 5000
  when the server keeps to the limit.
\<close>

theorem participants_single_page:
  "snd (participants R s survey attributes w)
     = after_post w ''list_participants'' [key s, survey, JInt 0, JInt 5000, JBool False, attributes]
   \<and> (fst (participants R s survey attributes w) = Inr ps \<and> py_iter ps = Inr pl
        \<and> psc1_from_token pl [] = Inr m
      \<longrightarrow> length m \<le> length pl
          \<and> (\<forall>t \<in> fst ` set m. \<exists>p \<in> set pl. \<exists>token.
                getitem p ''token'' = Inr token \<and> to_key token = Some t))"
  using length_psc1_from_token [of pl "[]" m] keys_psc1_from_token [of pl "[]" m]
  by (auto simp: snd_participants)

theorem participants_single_page_witness:
  "posted (snd (participants token_remote open_session (JInt 1) (JList [JStr ''attribute_1'']) initial_world))
     = [Request 1 ''list_participants''
          [JStr ''KEY'', JInt 1, JInt 0, JInt 5000, JBool False, JList [JStr ''attribute_1'']]]
   \<and> fst (participants token_remote open_session (JInt 1) (JList [JStr ''attribute_1'']) initial_world)
       = Inr example_participants
   \<and> psc1_from_token [JDict [(KStr ''tid'', JInt 1), (KStr ''token'', JStr ''abc''),
                   (KStr ''attribute_1'', JStr ''PSC001'')]] [] = Inr [(KStr ''abc'', JStr ''PSC001'')]
   \<and> length [(KStr ''abc'', JStr ''PSC001'')] \<le> length [example_participants]"
proof -
  let ?p = "participants token_remote open_session (JInt 1) (JList [JStr ''attribute_1'']) initial_world"
  let ?pl = "[JDict [(KStr ''tid'', JInt 1), (KStr ''token'', JStr ''abc''),
                   (KStr ''attribute_1'', JStr ''PSC001'')]]"
  have a: "fst ?p = Inr example_participants" by code_simp
  have b: "py_iter example_participants = Inr ?pl" by code_simp
  have c: "psc1_from_token ?pl [] = Inr [(KStr ''abc'', JStr ''PSC001'')]" by code_simp
  have e: "after_post initial_world ''list_participants''
      [key open_session, JInt 1, JInt 0, JInt 5000, JBool False, JList [JStr ''attribute_1'']]
     = initial_world\<lparr>request_id := 1, posted := [Request 1 ''list_participants''
          [JStr ''KEY'', JInt 1, JInt 0, JInt 5000, JBool False, JList [JStr ''attribute_1'']]]\<rparr>"
    by (simp add: after_post_def initial_world_def open_session_def)
  from participants_single_page [where R = token_remote and s = open_session and survey = "JInt 1"
      and attributes = "JList [JStr ''attribute_1'']" and w = initial_world
      and ps = example_participants and pl = ?pl and m = "[(KStr ''abc'', JStr ''PSC001'')]"]
    a b c e
  show ?thesis by simp
qed

section \<open>Authentication\<close>

text \<open>
  Claim C4 asks that a session is not created when the server does not hand out a key.
  The code builds the error object for the rejected credentials and then drops it:
  \<^verbatim>\<open>_get_session_key\<close> returns \<^verbatim>\<open>None\<close>, the constructor stores it as the key, and the run
  goes on to post \<^verbatim>\<open>list_surveys\<close> without a key.
\<close>

theorem rejected_credentials_open_a_session:
  "fst (init rejecting base_url (JStr ''user'') (JStr ''wrong'') initial_world)
     = Inr \<lparr>url = base_url, key = JNull, http_closed = False\<rparr>
   \<and> get_session_key_fix (JDict [(KStr ''status'', JStr ''Invalid user name or password'')], JNull)
     = (JNull, JDict [(KStr ''code'', JInt (- 32099)),
                      (KStr ''message'', JStr ''Invalid user name or password'')])
   \<and> posted (snd (download_json rejecting base_url (JStr ''user'') (JStr ''wrong'') initial_world))
     = [Request 1 ''get_session_key'' [JStr ''user'', JStr ''wrong''],
        Request 2 ''list_surveys'' [JNull],
        Request 3 ''release_session_key'' [JNull]]
   \<and> fst (download_json rejecting base_url (JStr ''user'') (JStr ''wrong'') initial_world)
     = Inl TypeError"
  by code_simp

section \<open>Release of the session key\<close>

text \<open>
  Claim C5. Whenever the constructor of the session returns, as it does when
  authentication succeeds, the run posts exactly one \<^verbatim>\<open>release_session_key\<close> request,
  with the key of the session, and it is the last request of the run: whether the block
  completed or \<^verbatim>\<open>surveys\<close>, \<^verbatim>\<open>participants\<close>, \<^verbatim>\<open>responses\<close> or anything else in it
  raised.
\<close>

theorem release_exactly_once:
  assumes "fst (init R u username password w) = Inr s"
  shows "releases (snd (download_json R u username password w)) = releases w + 1
       \<and> req_method (last (posted (snd (download_json R u username password w))))
           = ''release_session_key''
       \<and> req_params (last (posted (snd (download_json R u username password w)))) = [key s]"
proof -
  have "releases (snd (init R u username password w)) = releases w"
    by (simp add: snd_init releases_after_post)
  then show ?thesis
    by (simp add: download_json_world [OF assms] releases_after_post after_post_simps
        releases_download_body)
qed

theorem release_exactly_once_witness:
  "fst (init broken_first base_url (JStr ''user'') (JStr ''secret'') initial_world) = Inr open_session
   \<and> fst (download_json broken_first base_url (JStr ''user'') (JStr ''secret'') initial_world)
       = Inl (LimeSurveyError (JStr ''Error: No survey participants table'') (JInt (- 32099)))
   \<and> releases initial_world = 0
   \<and> releases (snd (download_json broken_first base_url (JStr ''user'') (JStr ''secret'') initial_world)) = 1
   \<and> last (posted (snd (download_json broken_first base_url (JStr ''user'') (JStr ''secret'') initial_world)))
       = Request 4 ''release_session_key'' [JStr ''KEY'']"
proof -
  have i: "fst (init broken_first base_url (JStr ''user'') (JStr ''secret'') initial_world) = Inr open_session"
    by code_simp
  have r: "fst (download_json broken_first base_url (JStr ''user'') (JStr ''secret'') initial_world)
       = Inl (LimeSurveyError (JStr ''Error: No survey participants table'') (JInt (- 32099)))"
    by code_simp
  have z: "releases initial_world = 0" by code_simp
  have l: "last (posted (snd (download_json broken_first base_url (JStr ''user'') (JStr ''secret'') initial_world)))
       = Request 4 ''release_session_key'' [JStr ''KEY'']"
    by code_simp
  from release_exactly_once [OF i] z i r l show ?thesis by simp
qed

section \<open>Writing the file of a survey\<close>

subsection \<open>The serialised text is plain\<close>

text \<open>
  The text that \<^verbatim>\<open>json.dumps\<close> returns with its default
  \<^verbatim>\<open>ensure_ascii\<close> holds ASCII characters only and no carriage return.  Such a
  text is its own UTF-8 encoding, and a file that holds it is read back, in text mode, as
  the same text.
\<close>

lemma plain_text_Nil: "plain_text []"
  by (simp add: plain_text_def)

lemma plain_text_Cons:
  "plain_text (c # s) \<longleftrightarrow> (of_char c :: nat) < 0x80 \<and> c \<noteq> CHR 0x0D \<and> plain_text s"
  by (simp add: plain_text_def)

lemma plain_text_append: "plain_text (s @ t) \<longleftrightarrow> plain_text s \<and> plain_text t"
  by (simp add: plain_text_def)

lemma of_char_CR: "(of_char c :: nat) = 0x0D \<longleftrightarrow> c = CHR 0x0D"
proof
  assume "(of_char c :: nat) = 0x0D"
  then have "(of_char c :: nat) = of_char (CHR 0x0D)" by simp
  then show "c = CHR 0x0D" by (simp only: of_char_eq_iff)
qed simp

lemma utf8_decode_plain: "plain_text s \<Longrightarrow> utf8_decode (map of_char s) = Some (map of_char s)"
  by (induction s) (simp_all add: plain_text_Cons)

lemma universal_newlines_id: "0x0D \<notin> set xs \<Longrightarrow> universal_newlines xs = xs"
  by (induction xs rule: universal_newlines.induct) simp_all

lemma plain_no_CR: "plain_text s \<Longrightarrow> (0x0D :: nat) \<notin> set (map of_char s)"
proof (induction s)
  case Nil
  then show ?case by simp
next
  case (Cons c s)
  from Cons.prems [unfolded plain_text_Cons] have c: "c \<noteq> CHR 0x0D" and s: "plain_text s"
    by blast+
  from c have "(of_char c :: nat) \<noteq> 0x0D"
    by (simp only: of_char_CR not_False_eq_True)
  with Cons.IH [OF s] show ?case by simp
qed

lemma read_text_plain: "plain_text s \<Longrightarrow> read_text s = Some (map of_char s)"
proof -
  assume p: "plain_text s"
  have "universal_newlines (map of_char s) = map of_char s"
    using plain_no_CR [OF p] by (rule universal_newlines_id)
  then show ?thesis
    by (simp only: read_text_def utf8_decode_plain [OF p] option.map)
qed

lemma utf8_encode_plain: "plain_text s \<Longrightarrow> utf8_encode s = s"
  by (induction s) (simp_all add: utf8_encode_def plain_text_Cons)

lemma plain_hex_digits: "list_all (\<lambda>d. plain_text [hex_digit d]) [0..<16]"
  by code_simp

lemma plain_hex_digit: "d < 16 \<Longrightarrow> plain_text [hex_digit d]"
  using plain_hex_digits by (simp add: list_all_iff)

lemma plain_escape_char: "plain_text (escape_char c)"
proof -
  have "(of_char c :: nat) < 256" by simp
  then have "(of_char c :: nat) div 16 < 16" by arith
  then have h: "plain_text [hex_digit (of_char c div 16)]" by (rule plain_hex_digit)
  have l: "plain_text [hex_digit (of_char c mod 16)]" by (rule plain_hex_digit) simp
  from h l show ?thesis
    by (auto simp: escape_char_def plain_text_Cons plain_text_Nil)
qed

lemma plain_concat: "(\<And>x. x \<in> set xs \<Longrightarrow> plain_text x) \<Longrightarrow> plain_text (concat xs)"
  by (induction xs) (simp_all add: plain_text_Nil plain_text_append)

lemma plain_encode_basestring_ascii: "plain_text (encode_basestring_ascii s)"
proof -
  have "plain_text (concat (map escape_char s))"
    by (rule plain_concat) (auto simp: plain_escape_char)
  then show ?thesis
    by (simp add: encode_basestring_ascii_def plain_text_Cons plain_text_append plain_text_Nil)
qed

lemma plain_digits: "plain_text (digits n)"
proof (induction n rule: digits.induct)
  case (1 n)
  show ?case
  proof (cases "n < 10")
    case True
    then show ?thesis
      by (subst digits.simps) (simp add: plain_hex_digit)
  next
    case False
    have "plain_text [hex_digit (n mod 10)]" by (rule plain_hex_digit) arith
    with False "1.IH" show ?thesis
      by (subst digits.simps) (simp add: plain_text_append)
  qed
qed

lemma plain_int_repr: "plain_text (int_repr i)"
  by (simp add: int_repr_def plain_text_Cons plain_digits)

lemma plain_newline_indent: "plain_text (newline_indent l)"
  by (simp add: newline_indent_def plain_text_def list_all_iff)

lemma plain_join:
  "plain_text sep \<Longrightarrow> (\<And>x. x \<in> set xs \<Longrightarrow> plain_text x) \<Longrightarrow> plain_text (join sep xs)"
  by (induction sep xs rule: join.induct) (simp_all add: plain_text_Nil plain_text_append)

lemma set_insort_item: "set (insort_item x ys) = insert x (set ys)"
  by (induction ys) auto

lemma set_sort_items: "set (sort_items xs) = set xs"
  by (induction xs) (simp_all add: sort_items_def set_insort_item)

lemma plain_encode: "plain_text (encode l v)"
proof (induction v arbitrary: l)
  case (JList xs)
  have "plain_text (join ('','' @ newline_indent (Suc l)) (map (encode (Suc l)) xs))"
    using JList by (intro plain_join) (auto simp: plain_text_Cons plain_newline_indent)
  then show ?case
    by (simp add: plain_text_Cons plain_text_append plain_text_Nil plain_newline_indent)
next
  case (JDict kvs)
  have "plain_text (join ('','' @ newline_indent (Suc l))
          (map (\<lambda>(k, t). encode_basestring_ascii (key_str k) @ '': '' @ t)
             (sort_items (map (\<lambda>(k, v). (k, encode (Suc l) v)) kvs))))"
  proof (rule plain_join)
    show "plain_text ('','' @ newline_indent (Suc l))"
      by (simp add: plain_text_Cons plain_newline_indent)
  next
    fix x
    assume "x \<in> set (map (\<lambda>(k, t). encode_basestring_ascii (key_str k) @ '': '' @ t)
             (sort_items (map (\<lambda>(k, v). (k, encode (Suc l) v)) kvs)))"
    then obtain k v where kv: "(k, v) \<in> set kvs"
      and x: "x = encode_basestring_ascii (key_str k) @ '': '' @ encode (Suc l) v"
      by (auto simp: set_sort_items)
    from kv have "plain_text (encode (Suc l) v)"
      by (intro JDict [of "(k, v)"]) simp_all
    with x show "plain_text x"
      by (simp add: plain_text_append plain_text_Cons plain_text_Nil plain_encode_basestring_ascii)
  qed
  then show ?case
    by (simp add: plain_text_Cons plain_text_append plain_text_Nil plain_newline_indent)
qed (simp_all add: plain_text_Cons plain_text_Nil plain_int_repr plain_encode_basestring_ascii)

lemma plain_dumps: "dumps v = Inr t \<Longrightarrow> plain_text t"
  by (auto simp: dumps_def plain_encode split: if_splits)

lemma plain_survey_artifact:
  "survey_artifact R s survey w = (Inr (path, data), w') \<Longrightarrow> plain_text data"
  by (auto simp: survey_artifact_def plain_dumps split: sum.splits prod.splits)

subsection \<open>Reading, comparing and writing\<close>

text \<open>
  The requests of a survey leave the files and their permissions as they are.
\<close>

lemma survey_artifact_disk:
  "files (snd (survey_artifact R s survey w)) = files w
   \<and> written (snd (survey_artifact R s survey w)) = written w
   \<and> readable (snd (survey_artifact R s survey w)) = readable w
   \<and> writable (snd (survey_artifact R s survey w)) = writable w"
  by (auto simp: survey_artifact_def after_post_simps dest!: participants_world responses_world split: sum.splits prod.splits)

text \<open>
  Claim C6 says that a file at the path of a survey is left alone when it is byte-identical
  to the new text, and that in every other case the new text is written.  The program
  opens the file in text mode, so it compares the text that the file decodes to, with
  CR LF and CR read as LF: below, a file that holds the
  lines of the new text with CR LF line ends is not byte-identical to the new
  text, and it is left alone, nothing being written.  Nor is the new text written in
  every other case: the title \<^verbatim>\<open>A/B\<close> gives the path \<^verbatim>\<open>A/B.json\<close> under the
  master directory, which has no directory \<^verbatim>\<open>A\<close>; no file is there, opening the path
  for writing raises \<^verbatim>\<open>OSError\<close>, and nothing is written.
\<close>

theorem different_bytes_are_skipped:
  "files crlf_world example_path = Some crlf_text
   \<and> crlf_text \<noteq> example_text
   \<and> fst (survey_artifact token_remote open_session first_survey crlf_world)
       = Inr (example_path, example_text)
   \<and> fst (download_survey token_remote open_session first_survey crlf_world) = Inr ()
   \<and> written (snd (download_survey token_remote open_session first_survey crlf_world)) = []
   \<and> files (snd (download_survey token_remote open_session first_survey crlf_world)) example_path
       = Some crlf_text
   \<and> files initial_world (PSYTOOLS_FU3_MASTER_DIR @ ''/A/B.json'') = None
   \<and> fst (survey_artifact token_remote open_session slash_survey initial_world)
       = Inr (PSYTOOLS_FU3_MASTER_DIR @ ''/A/B.json'', example_text)
   \<and> fst (download_survey token_remote open_session slash_survey initial_world) = Inl OSError
   \<and> written (snd (download_survey token_remote open_session slash_survey initial_world)) = []"
  by code_simp

text \<open>
  Claim C6, amended.  When the path and the text of a survey have been computed, which
  changes no file and no permission:
  \<^item> a file at the path that is byte-identical to the text, and can be read, is left alone
    and nothing is written;
  \<^item> so is a readable file whose content, decoded as UTF-8 with CR LF and CR read as LF,
    is the text;
  \<^item> when there is no file at the path, or the file reads as another text, the path is
    opened for writing: if that succeeds the text replaces what was there, and if it
    fails the survey raises \<^verbatim>\<open>OSError\<close> and nothing is written;
  \<^item> a file that does not decode raises \<^verbatim>\<open>UnicodeDecodeError\<close>, a file that cannot be
    opened for reading raises \<^verbatim>\<open>OSError\<close>, and nothing is written.
\<close>

theorem same_text_is_skipped:
  assumes "survey_artifact R s survey w = (Inr (path, data), w')"
  shows "files w' = files w \<and> written w' = written w
       \<and> readable w' = readable w \<and> writable w' = writable w
       \<and> (files w path = Some data \<and> readable w path
            \<longrightarrow> download_survey R s survey w = (Inr (), w'))
       \<and> (files w path = Some bytes \<and> readable w path
            \<and> read_text bytes = Some (map of_char data)
            \<longrightarrow> download_survey R s survey w = (Inr (), w'))
       \<and> ((files w path = None
             \<or> (files w path = Some bytes \<and> readable w path
                 \<and> read_text bytes = Some stored \<and> stored \<noteq> map of_char data))
            \<longrightarrow> download_survey R s survey w =
                  (if writable w path
                   then (Inr (), w'\<lparr>files := (files w)(path \<mapsto> data),
                                     written := written w @ [path]\<rparr>)
                   else (Inl OSError, w')))
       \<and> (files w path = Some bytes \<and> readable w path \<and> read_text bytes = None
            \<longrightarrow> download_survey R s survey w = (Inl UnicodeDecodeError, w'))
       \<and> (files w path \<noteq> None \<and> \<not> readable w path
            \<longrightarrow> download_survey R s survey w = (Inl OSError, w'))"
proof -
  have disk: "files w' = files w" "written w' = written w"
    "readable w' = readable w" "writable w' = writable w"
    using assms survey_artifact_disk [of R s survey w] by simp_all
  have plain: "plain_text data"
    using assms by (rule plain_survey_artifact)
  have body: "download_survey R s survey w = save path data w'"
    using assms by (simp add: download_survey_def)
  have same: "files w path = Some data \<Longrightarrow> readable w path \<Longrightarrow> save path data w' = (Inr (), w')"
    using disk read_text_plain [OF plain] by (simp add: save_def unchanged_def)
  have skip: "files w path = Some bytes \<Longrightarrow> readable w path
      \<Longrightarrow> read_text bytes = Some (map of_char data) \<Longrightarrow> save path data w' = (Inr (), w')"
    using disk by (simp add: save_def unchanged_def)
  have store: "files w path = None
      \<or> (files w path = Some bytes \<and> readable w path
          \<and> read_text bytes = Some stored \<and> stored \<noteq> map of_char data)
      \<Longrightarrow> save path data w' =
            (if writable w path
             then (Inr (), w'\<lparr>files := (files w)(path \<mapsto> data), written := written w @ [path]\<rparr>)
             else (Inl OSError, w'))"
    using disk utf8_encode_plain [OF plain] by (auto simp: save_def unchanged_def)
  have undecodable: "files w path = Some bytes \<Longrightarrow> readable w path \<Longrightarrow> read_text bytes = None
      \<Longrightarrow> save path data w' = (Inl UnicodeDecodeError, w')"
    using disk by (simp add: save_def unchanged_def)
  have unreadable: "files w path \<noteq> None \<Longrightarrow> \<not> readable w path
      \<Longrightarrow> save path data w' = (Inl OSError, w')"
    using disk by (auto simp: save_def unchanged_def)
  from disk same skip store undecodable unreadable show ?thesis
    by (simp only: body) blast
qed

theorem same_text_is_skipped_witness:
  "fst (survey_artifact token_remote open_session first_survey initial_world)
     = Inr (example_path, example_text)
   \<and> files initial_world example_path = None
   \<and> fst (download_survey token_remote open_session first_survey initial_world) = Inr ()
   \<and> written (snd (download_survey token_remote open_session first_survey initial_world))
       = [example_path]
   \<and> files (snd (download_survey token_remote open_session first_survey initial_world)) example_path
       = Some example_text
   \<and> fst (survey_artifact token_remote open_session first_survey stored_world)
       = Inr (example_path, example_text)
   \<and> files stored_world example_path = Some example_text
   \<and> fst (download_survey token_remote open_session first_survey stored_world) = Inr ()
   \<and> written (snd (download_survey token_remote open_session first_survey stored_world)) = []
   \<and> fst (survey_artifact token_remote open_session first_survey crlf_world)
       = Inr (example_path, example_text)
   \<and> files crlf_world example_path = Some crlf_text
   \<and> read_text crlf_text = Some (map of_char example_text)
   \<and> fst (download_survey token_remote open_session first_survey crlf_world) = Inr ()
   \<and> written (snd (download_survey token_remote open_session first_survey crlf_world)) = []"
proof -
  let ?a = "survey_artifact token_remote open_session first_survey initial_world"
  let ?b = "survey_artifact token_remote open_session first_survey stored_world"
  let ?c = "survey_artifact token_remote open_session first_survey crlf_world"
  have a: "fst ?a = Inr (example_path, example_text)" by code_simp
  have b: "fst ?b = Inr (example_path, example_text)" by code_simp
  have c: "fst ?c = Inr (example_path, example_text)" by code_simp
  from a have a': "?a = (Inr (example_path, example_text), snd ?a)" by (simp add: prod_eq_iff)
  from b have b': "?b = (Inr (example_path, example_text), snd ?b)" by (simp add: prod_eq_iff)
  from c have c': "?c = (Inr (example_path, example_text), snd ?c)" by (simp add: prod_eq_iff)
  have n: "files initial_world example_path = None" by (simp add: initial_world_def)
  have f: "files stored_world example_path = Some example_text"
    by (simp add: stored_world_def)
  have g: "files crlf_world example_path = Some crlf_text"
    by (simp add: crlf_world_def)
  have t: "read_text crlf_text = Some (map of_char example_text)" by code_simp
  have r: "readable stored_world example_path" "readable crlf_world example_path"
    by (simp_all add: stored_world_def crlf_world_def initial_world_def)
  have p: "writable initial_world example_path" by code_simp
  have e: "written initial_world = []" "written stored_world = []" "written crlf_world = []"
    by (simp_all add: initial_world_def stored_world_def crlf_world_def)
  from same_text_is_skipped [OF a', where bytes = "[]" and stored = "[]"] n p e
  have 1: "fst (download_survey token_remote open_session first_survey initial_world) = Inr ()
     \<and> written (snd (download_survey token_remote open_session first_survey initial_world))
       = [example_path]
     \<and> files (snd (download_survey token_remote open_session first_survey initial_world)) example_path
       = Some example_text"
    by simp
  from same_text_is_skipped [OF b', where bytes = "[]" and stored = "[]"] f r e
  have 2: "fst (download_survey token_remote open_session first_survey stored_world) = Inr ()
     \<and> written (snd (download_survey token_remote open_session first_survey stored_world)) = []"
    by simp
  from same_text_is_skipped [OF c', where bytes = crlf_text and stored = "[]"] g t r e
  have 3: "fst (download_survey token_remote open_session first_survey crlf_world) = Inr ()
     \<and> written (snd (download_survey token_remote open_session first_survey crlf_world)) = []"
    by simp
  from a b c n f g t 1 2 3 show ?thesis by simp
qed

section \<open>A survey that fails\<close>

lemma download_loop_append:
  "download_loop R s (xs @ ys) w =
     (case download_loop R s xs w of
        (Inl e, w') \<Rightarrow> (Inl e, w')
      | (Inr u, w') \<Rightarrow> download_loop R s ys w')"
  by (induction xs arbitrary: w) (auto split: prod.splits sum.splits)

text \<open>
  Claim C2 says that a survey whose processing fails is skipped and the run goes on with
  the next one. The loop of \<^verbatim>\<open>download_json\<close> has no exception handler. Here the server
  has no participant table for the first of two surveys: the run ends with the
  \<^verbatim>\<open>LimeSurveyError\<close> of the first survey, nothing is requested for the second survey
  and nothing is written, although the second survey on its own is processed and
  written.
\<close>

theorem failing_survey_stops_the_run:
  "fst (download_json broken_first base_url (JStr ''user'') (JStr ''secret'') initial_world)
     = Inl (LimeSurveyError (JStr ''Error: No survey participants table'') (JInt (- 32099)))
   \<and> map req_method (posted (snd (download_json broken_first base_url (JStr ''user'') (JStr ''secret'') initial_world)))
       = [''get_session_key'', ''list_surveys'', ''list_participants'', ''release_session_key'']
   \<and> written (snd (download_json broken_first base_url (JStr ''user'') (JStr ''secret'') initial_world)) = []
   \<and> fst (download_survey broken_first open_session second_survey initial_world) = Inr ()
   \<and> written (snd (download_survey broken_first open_session second_survey initial_world))
       = [''/neurospin/imagen/FU3/RAW/PSC1/psytools/T2-Follow_up.json'']"
  by code_simp

text \<open>
  Claim C2, as the code has it. When the processing of a survey raises, the exception
  leaves the loop and the \<^verbatim>\<open>with\<close> block: the surveys after it are not processed, the
  session key is released, which is the only thing that still happens, and the run ends
  with an exception: the one of the survey, when the release does not raise.
\<close>

theorem survey_failure_aborts_run:
  assumes "init R u username password w = (Inr s, w1)"
      and "surveys R s w1 = (Inr sv, w2)"
      and "py_iter sv = Inr (before @ survey # rest)"
      and "download_loop R s before w2 = (Inr (), w3)"
      and "download_survey R s survey w3 = (Inl e, w4)"
  shows "download_body R s w1 = (Inl e, w4)
       \<and> (\<exists>e'. fst (download_json R u username password w) = Inl e')
       \<and> (\<forall>s'. fst (close R s w4) = Inr s' \<longrightarrow> fst (download_json R u username password w) = Inl e)
       \<and> snd (download_json R u username password w)
           = after_post w4 ''release_session_key'' [key s]"
proof -
  have body: "download_body R s w1 = (Inl e, w4)"
    using assms by (simp add: download_body_def download_loop_append)
  obtain c w5 where c: "close R s w4 = (c, w5)"
    by (cases "close R s w4")
  with snd_close [of R s w4] have w5: "w5 = after_post w4 ''release_session_key'' [key s]"
    by simp
  from assms(1) body c w5 show ?thesis
    by (cases c) (simp_all add: download_json_def)
qed

theorem survey_failure_aborts_run_witness:
  "fst (init broken_first base_url (JStr ''user'') (JStr ''secret'') initial_world) = Inr open_session
   \<and> fst (surveys broken_first open_session
        (snd (init broken_first base_url (JStr ''user'') (JStr ''secret'') initial_world)))
       = Inr two_surveys
   \<and> py_iter two_surveys = Inr ([] @ first_survey # [second_survey])
   \<and> fst (download_survey broken_first open_session first_survey
        (snd (surveys broken_first open_session
          (snd (init broken_first base_url (JStr ''user'') (JStr ''secret'') initial_world)))))
       = Inl (LimeSurveyError (JStr ''Error: No survey participants table'') (JInt (- 32099)))
   \<and> fst (download_json broken_first base_url (JStr ''user'') (JStr ''secret'') initial_world)
       = Inl (LimeSurveyError (JStr ''Error: No survey participants table'') (JInt (- 32099)))
   \<and> written (snd (download_json broken_first base_url (JStr ''user'') (JStr ''secret'') initial_world))
       = []"
proof -
  let ?e = "LimeSurveyError (JStr ''Error: No survey participants table'') (JInt (- 32099))"
  let ?i = "init broken_first base_url (JStr ''user'') (JStr ''secret'') initial_world"
  let ?s = "surveys broken_first open_session (snd ?i)"
  let ?d = "download_survey broken_first open_session first_survey (snd ?s)"
  have i: "fst ?i = Inr open_session" by code_simp
  have s: "fst ?s = Inr two_surveys" by code_simp
  have p: "py_iter two_surveys = Inr ([] @ first_survey # [second_survey])" by code_simp
  have d: "fst ?d = Inl ?e" by code_simp
  have c: "fst (close broken_first open_session (snd ?d)) = Inr closed_session" by code_simp
  have w: "written (snd ?d) = []" by code_simp
  from i have i': "?i = (Inr open_session, snd ?i)" by (simp add: prod_eq_iff)
  from s have s': "?s = (Inr two_surveys, snd ?s)" by (simp add: prod_eq_iff)
  from d have d': "?d = (Inl ?e, snd ?d)" by (simp add: prod_eq_iff)
  have l: "download_loop broken_first open_session [] (snd ?s) = (Inr (), snd ?s)" by simp
  from survey_failure_aborts_run [OF i' s' p l d'] c w
  have "fst (download_json broken_first base_url (JStr ''user'') (JStr ''secret'') initial_world) = Inl ?e
      \<and> written (snd (download_json broken_first base_url (JStr ''user'') (JStr ''secret'') initial_world)) = []"
    by (simp add: after_post_simps)
  with i s p d show ?thesis by simp
qed

section \<open>A response whose token is unknown\<close>

lemma rekey_items_mapped:
  "rekey_items m items acc = Inr d \<Longrightarrow> (k, v) \<in> set items
   \<Longrightarrow> \<exists>token t. getitem v ''token'' = Inr token \<and> to_key token = Some t \<and> dict_get m t \<noteq> None"
proof (induction items arbitrary: acc)
  case Nil
  then show ?case by simp
next
  case (Cons item items)
  obtain k' v' where item: "item = (k', v')" by (cases item)
  from Cons.prems(1) item obtain token t psc1 p where
    h: "getitem v' ''token'' = Inr token" "to_key token = Some t" "dict_get m t = Some psc1"
       "rekey_items m items (dict_set acc p v') = Inr d"
    by (auto split: sum.splits option.splits)
  show ?case
  proof (cases "(k, v) = item")
    case True
    with item h show ?thesis by auto
  next
    case False
    with Cons.prems(2) have "(k, v) \<in> set items" by simp
    from Cons.IH [OF h(4) this] show ?thesis .
  qed
qed

lemma rekey_list_records:
  "rekey_list m rl = Inr ds \<Longrightarrow> r \<in> set rl \<Longrightarrow> \<exists>d. rekey_record m r = Inr d"
  by (induction rl arbitrary: ds) (auto split: sum.splits)

lemma unmapped_token_fails:
  assumes "getitem rsp ''responses'' = Inr rs" and "py_iter rs = Inr rl"
      and "JDict items \<in> set rl" and "(k, v) \<in> set items"
      and "getitem v ''token'' = Inr token" and "to_key token = Some t"
      and "dict_get m t = None"
  shows "\<exists>e. rekey m rsp = Inl e"
proof -
  obtain kvs where rsp: "rsp = JDict kvs" and get: "dict_get kvs (KStr ''responses'') = Some rs"
    using assms(1) by (cases rsp) (auto split: option.splits)
  have "\<not> (\<exists>ds. rekey_list m rl = Inr ds)"
  proof
    assume "\<exists>ds. rekey_list m rl = Inr ds"
    then obtain ds where "rekey_list m rl = Inr ds" ..
    from rekey_list_records [OF this assms(3)] obtain d where "rekey_items m items [] = Inr d"
      by (auto simp: rekey_record_def split: sum.splits)
    from rekey_items_mapped [OF this assms(4)] assms(5,6,7) show False by simp
  qed
  then obtain e where "rekey_list m rl = Inl e"
    by (cases "rekey_list m rl") auto
  with rsp get assms(2) show ?thesis
    by (simp add: rekey_def)
qed

text \<open>
  Claim C3 says that a response whose token is not in the mapping is dropped and the
  other responses of the survey are written. The code looks the token up with
  \<^verbatim>\<open>psc1_from_token[v['token']]\<close>, which raises \<^verbatim>\<open>KeyError\<close>. Here the first of two
  responses has a token no participant has: the run ends with \<^verbatim>\<open>KeyError\<close> and the
  file of the survey is not written, the second response included.
\<close>

theorem unmapped_token_stops_the_run:
  "fst (download_json stray_remote base_url (JStr ''user'') (JStr ''secret'') initial_world)
     = Inl (KeyError (KStr ''zzz''))
   \<and> written (snd (download_json stray_remote base_url (JStr ''user'') (JStr ''secret'') initial_world)) = []
   \<and> files (snd (download_json stray_remote base_url (JStr ''user'') (JStr ''secret'') initial_world))
       example_path = None"
  by code_simp

text \<open>
  Claim C3, as the code has it. When some response of the export carries a token that
  has no entry in the mapping of the survey, re-keying raises (\<^verbatim>\<open>KeyError\<close> with that
  token, at the response itself), the processing of the survey fails, and no file is
  written for it.
\<close>

theorem unmapped_token_fails_survey:
  assumes "getitem survey ''surveyls_title'' = Inr title" and "getitem survey ''sid'' = Inr sid"
      and "participants R s sid (JList [JStr ''attribute_1'']) w = (Inr ps, w1)"
      and "py_iter ps = Inr pl" and "psc1_from_token pl [] = Inr m"
      and "responses R s sid (JStr ''all'') w1 = (Inr rsp, w2)"
      and "getitem rsp ''responses'' = Inr rs" and "py_iter rs = Inr rl"
      and "JDict items \<in> set rl" and "(k, v) \<in> set items"
      and "getitem v ''token'' = Inr token" and "to_key token = Some t"
      and "dict_get m t = None"
  shows "(\<exists>e. download_survey R s survey w = (Inl e, w2))
       \<and> files w2 = files w \<and> written w2 = written w
       \<and> rekey_items m ((k, v) # others) acc = Inl (KeyError t)"
proof -
  from unmapped_token_fails [OF assms(7-13)] obtain e where "rekey m rsp = Inl e" ..
  with assms(1-6) have "download_survey R s survey w = (Inl e, w2)"
    by (simp add: download_survey_def survey_artifact_def)
  moreover have "files w2 = files w \<and> written w2 = written w"
    using participants_world [OF assms(3)] responses_world [OF assms(6)]
    by (simp add: after_post_simps)
  moreover have "rekey_items m ((k, v) # others) acc = Inl (KeyError t)"
    using assms(11-13) by simp
  ultimately show ?thesis by blast
qed

theorem unmapped_token_fails_survey_witness:
  "fst (participants stray_remote open_session (JInt 1) (JList [JStr ''attribute_1'']) initial_world)
     = Inr example_participants
   \<and> psc1_from_token [JDict [(KStr ''tid'', JInt 1), (KStr ''token'', JStr ''abc''),
                   (KStr ''attribute_1'', JStr ''PSC001'')]] [] = Inr [(KStr ''abc'', JStr ''PSC001'')]
   \<and> fst (responses stray_remote open_session (JInt 1) (JStr ''all'')
        (snd (participants stray_remote open_session (JInt 1) (JList [JStr ''attribute_1'']) initial_world)))
     = Inr stray_export
   \<and> dict_get [(KStr ''abc'', JStr ''PSC001'')] (KStr ''zzz'') = None
   \<and> fst (download_survey stray_remote open_session first_survey initial_world)
       = Inl (KeyError (KStr ''zzz''))
   \<and> files (snd (download_survey stray_remote open_session first_survey initial_world)) example_path
       = None"
proof -
  let ?p = "participants stray_remote open_session (JInt 1) (JList [JStr ''attribute_1'']) initial_world"
  let ?r = "responses stray_remote open_session (JInt 1) (JStr ''all'') (snd ?p)"
  let ?pl = "[JDict [(KStr ''tid'', JInt 1), (KStr ''token'', JStr ''abc''),
                   (KStr ''attribute_1'', JStr ''PSC001'')]]"
  let ?m = "[(KStr ''abc'', JStr ''PSC001'')]"
  let ?v = "JDict [(KStr ''q1'', JStr ''3''), (KStr ''token'', JStr ''zzz'')]"
  let ?v2 = "JDict [(KStr ''q1'', JStr ''5''), (KStr ''token'', JStr ''abc'')]"
  let ?rl = "[JDict [(KStr ''1'', ?v)], JDict [(KStr ''2'', ?v2)]]"
  have t: "getitem first_survey ''surveyls_title'' = Inr (JStr ''T1 - Baseline'')" by code_simp
  have sid: "getitem first_survey ''sid'' = Inr (JInt 1)" by code_simp
  have p: "fst ?p = Inr example_participants" by code_simp
  have pi: "py_iter example_participants = Inr ?pl" by code_simp
  have m: "psc1_from_token ?pl [] = Inr ?m" by code_simp
  have r: "fst ?r = Inr stray_export" by code_simp
  have g: "getitem stray_export ''responses'' = Inr (JList ?rl)" by code_simp
  have ri: "py_iter (JList ?rl) = Inr ?rl" by simp
  have mem: "JDict [(KStr ''1'', ?v)] \<in> set ?rl" by simp
  have mem2: "(KStr ''1'', ?v) \<in> set [(KStr ''1'', ?v)]" by simp
  have tok: "getitem ?v ''token'' = Inr (JStr ''zzz'')" by code_simp
  have k: "to_key (JStr ''zzz'') = Some (KStr ''zzz'')" by simp
  have n: "dict_get ?m (KStr ''zzz'') = None" by code_simp
  have d: "fst (download_survey stray_remote open_session first_survey initial_world)
       = Inl (KeyError (KStr ''zzz''))" by code_simp
  have f: "files initial_world example_path = None" by (simp add: initial_world_def)
  from p have p': "?p = (Inr example_participants, snd ?p)" by (simp add: prod_eq_iff)
  from r have r': "?r = (Inr stray_export, snd ?r)" by (simp add: prod_eq_iff)
  from unmapped_token_fails_survey [OF t sid p' pi m r' g ri mem mem2 tok k n, of "[]" "[]"] d f
  have "fst (download_survey stray_remote open_session first_survey initial_world)
       = Inl (KeyError (KStr ''zzz''))
     \<and> files (snd (download_survey stray_remote open_session first_survey initial_world)) example_path
       = None"
    by auto
  with p m r n show ?thesis by simp
qed

section \<open>The example of the specification\<close>

text \<open>
  Claim C7 gives the response of the example as \<^verbatim>\<open>{"abc": {"q1": "5"}}\<close>. The code
  reads the token from the field \<^verbatim>\<open>token\<close> of the response, not from its key, so on
  this input the run ends with \<^verbatim>\<open>KeyError('token')\<close> and writes no file.
\<close>

theorem example_needs_token_field:
  "fst (download_json plain_remote base_url (JStr ''user'') (JStr ''secret'') initial_world)
     = Inl (KeyError (KStr ''token''))
   \<and> written (snd (download_json plain_remote base_url (JStr ''user'') (JStr ''secret'') initial_world)) = []
   \<and> files (snd (download_json plain_remote base_url (JStr ''user'') (JStr ''secret'') initial_world))
       example_path = None"
  by code_simp

text \<open>
  Claim C7, as the code has it. With the field \<^verbatim>\<open>token\<close> in the response,
  \<^verbatim>\<open>{"abc": {"q1": "5", "token": "abc"}}\<close>, the run writes the file
  \<^verbatim>\<open>T1-Baseline.json\<close> (under the output directory), whose text is the serialisation of
  the export with the response re-keyed to \<^verbatim>\<open>PSC001\<close>; a second run on the same inputs
  and the file system the first one left writes nothing.
\<close>

theorem example_with_token_field:
  "fst (download_json token_remote base_url (JStr ''user'') (JStr ''secret'') initial_world) = Inr ()
   \<and> written (snd (download_json token_remote base_url (JStr ''user'') (JStr ''secret'') initial_world))
       = [example_path]
   \<and> files (snd (download_json token_remote base_url (JStr ''user'') (JStr ''secret'') initial_world))
       example_path = Some example_text
   \<and> dumps rekeyed_export = Inr example_text
   \<and> fst (download_json token_remote base_url (JStr ''user'') (JStr ''secret'')
        (restart (snd (download_json token_remote base_url (JStr ''user'') (JStr ''secret'') initial_world))))
       = Inr ()
   \<and> written (snd (download_json token_remote base_url (JStr ''user'') (JStr ''secret'')
        (restart (snd (download_json token_remote base_url (JStr ''user'') (JStr ''secret'') initial_world)))))
       = []
   \<and> files (snd (download_json token_remote base_url (JStr ''user'') (JStr ''secret'')
        (restart (snd (download_json token_remote base_url (JStr ''user'') (JStr ''secret'') initial_world)))))
       example_path = Some example_text"
  by code_simp

end
